theory Spec2Isabelle
  imports Complex_Main "HOL-Library.AList"
begin

section \<open>Python values shared by the models\<close>

text \<open>
  The embedding follows \<^verbatim>\<open>src/st_jj_v1.py\<close>. A Python float is the
  \<^typ>\<open>real\<close> number it stands for. The signal engine only compares and subtracts
  them, and is modelled over the reals; the one float value that it treats specially, NaN,
  is kept: a pandas series is a list of \<^typ>\<open>real option\<close> where \<open>None\<close> is NaN. The
  quote service computes with them, and its arithmetic rounds every result to a double as
  the machine does (section on the quote service). Exceptions are values of \<open>py_error\<close>.
\<close>

datatype py_error = IndexError | ApiError

type_synonym series = "real option list"

text \<open>\<^verbatim>\<open>s.iloc[-1]\<close> and \<^verbatim>\<open>s.iloc[-2]\<close>: pandas raises IndexError out of range.\<close>

definition iloc_last :: "'a list \<Rightarrow> py_error + 'a" where
  "iloc_last s = (if s = [] then Inl IndexError else Inr (last s))"

definition iloc_last2 :: "'a list \<Rightarrow> py_error + 'a" where
  "iloc_last2 s = (if length s < 2 then Inl IndexError else Inr (s ! (length s - 2)))"

text \<open>Float comparison and subtraction: every comparison with NaN is false, NaN propagates.\<close>

definition fgt :: "real option \<Rightarrow> real option \<Rightarrow> bool" where
  "fgt a b = (case (a, b) of (Some x, Some y) \<Rightarrow> x > y | _ \<Rightarrow> False)"

definition flt :: "real option \<Rightarrow> real option \<Rightarrow> bool" where
  "flt a b = (case (a, b) of (Some x, Some y) \<Rightarrow> x < y | _ \<Rightarrow> False)"

definition fge :: "real option \<Rightarrow> real option \<Rightarrow> bool" where
  "fge a b = (case (a, b) of (Some x, Some y) \<Rightarrow> x \<ge> y | _ \<Rightarrow> False)"

definition fle :: "real option \<Rightarrow> real option \<Rightarrow> bool" where
  "fle a b = (case (a, b) of (Some x, Some y) \<Rightarrow> x \<le> y | _ \<Rightarrow> False)"

definition fsub :: "real option \<Rightarrow> real option \<Rightarrow> real option" where
  "fsub a b = (case (a, b) of (Some x, Some y) \<Rightarrow> Some (x - y) | _ \<Rightarrow> None)"

text \<open>\<^verbatim>\<open>s.dropna().values\<close>: the defined values of a series, in order.\<close>

definition dropna :: "series \<Rightarrow> real list" where
  "dropna s = map the (filter (\<lambda>v. v \<noteq> None) s)"

text \<open>\<^verbatim>\<open>str(n)\<close> of a natural number, as the f-strings \<^verbatim>\<open>f"MA{period}"\<close> print it.\<close>

definition digit_char :: "nat \<Rightarrow> char" where
  "digit_char d = ''0123456789'' ! d"

fun str_nat :: "nat \<Rightarrow> string" where
  "str_nat n = (if n < 10 then [digit_char n] else str_nat (n div 10) @ [digit_char (n mod 10)])"

declare str_nat.simps [simp del]

section \<open>SignalEngine\<close>

text \<open>
  A signal is the tuple \<^verbatim>\<open>(symbol, name, idx, score)\<close> appended to
  \<^verbatim>\<open>self.results\<close>. \<^verbatim>\<open>label_map\<close> maps a signal name to a display label and a
  score; only the score is read by the detection code, so the label is left out.
\<close>

type_synonym signal = "string \<times> string \<times> int \<times> real"

definition signal_name :: "signal \<Rightarrow> string" where
  "signal_name sg = fst (snd sg)"

definition label_map :: "(string \<times> real) list" where
  "label_map =
    [(''ma5_bottom_turn'', 0.6), (''ma10_bottom_turn'', 0.7),
     (''ma20_bottom_turn'', 0.8), (''ma60_bottom_turn'', 0.9),
     (''ma5_top_turn'', 0.6), (''ma10_top_turn'', 0.7),
     (''ma20_top_turn'', 0.8), (''ma60_top_turn'', 0.9),
     (''ma_multi_bull'', 1.0), (''ma_multi_bear'', 1.0),
     (''macd_golden_cross'', 0.8), (''macd_death_cross'', 0.8),
     (''macd_divergence_bull'', 0.9), (''macd_divergence_bear'', 0.9),
     (''rsi_oversold'', 0.7), (''rsi_overbought'', 0.7),
     (''rsi_divergence_bull'', 0.8), (''rsi_divergence_bear'', 0.8),
     (''volume_surge'', 0.6), (''volume_shrink'', 0.5),
     (''support_bounce'', 0.7), (''resistance_break'', 0.8)]"

text \<open>\<^verbatim>\<open>self.label_map.get(name, (name, 0))[1]\<close>.\<close>

definition label_score :: "string \<Rightarrow> real" where
  "label_score name = (case map_of label_map name of Some sc \<Rightarrow> sc | None \<Rightarrow> 0)"

text \<open>
  \<^verbatim>\<open>np.gradient\<close> of a one-dimensional array with unit spacing: one-sided differences
  at the two ends, central differences \<^verbatim>\<open>(x[i+1] - x[i-1]) / 2\<close> inside. The code calls
  it on exactly three points.
\<close>

definition gradient :: "real list \<Rightarrow> real list" where
  "gradient xs =
     map (\<lambda>i. if i = 0 then xs ! 1 - xs ! 0
              else if i = length xs - 1 then xs ! i - xs ! (i - 1)
              else (xs ! (i + 1) - xs ! (i - 1)) / 2)
         [0 ..< length xs]"

definition detect_ma_turning_point :: "real \<Rightarrow> real list \<Rightarrow> string \<Rightarrow> bool \<times> int" where
  "detect_ma_turning_point amplitude_threshold ma_values direction =
     (if length ma_values < 3 then (False, -1)
      else
        let recent = drop (length ma_values - 3) ma_values;
            grads = gradient recent;
            amplitude = (if recent ! 1 \<noteq> 0
                         then \<bar>(recent ! 2 - recent ! 1) / recent ! 1\<bar> else 0)
        in if amplitude \<le> amplitude_threshold then (False, -1)
           else if direction = ''bottom'' \<and> grads ! 1 < 0 \<and> grads ! 2 > 0
             then (True, int (length ma_values) - 1)
           else if direction = ''top'' \<and> grads ! 1 > 0 \<and> grads ! 2 < 0
             then (True, int (length ma_values) - 1)
           else (False, -1))"

definition ma_periods :: "nat list" where
  "ma_periods = [5, 10, 20, 60]"

definition ma_col :: "nat \<Rightarrow> string" where
  "ma_col period = ''MA'' @ str_nat period"

definition turn_name :: "nat \<Rightarrow> string \<Rightarrow> string" where
  "turn_name period direction = ''ma'' @ str_nat period @ ''_'' @ direction @ ''_turn''"

text \<open>The body of the inner loop of \<^verbatim>\<open>_detect_ma_signals\<close>: what one direction appends.\<close>

definition ma_direction_signals ::
  "real \<Rightarrow> real list \<Rightarrow> bool \<Rightarrow> bool \<Rightarrow> string \<Rightarrow> nat \<Rightarrow> string \<Rightarrow> signal list" where
  "ma_direction_signals thr ma_values main_trend_bull main_trend_bear symbol period direction =
     (if (direction = ''bottom'' \<and> main_trend_bull) \<or> (direction = ''top'' \<and> main_trend_bear)
      then
        let name = turn_name period direction;
            (is_signal, idx) = detect_ma_turning_point thr ma_values direction
        in if is_signal then [(symbol, name, idx, label_score name)] else []
      else [])"

text \<open>The body of the outer loop: what one period appends.\<close>

definition ma_period_signals ::
  "real \<Rightarrow> (string \<rightharpoonup> series) \<Rightarrow> bool \<Rightarrow> bool \<Rightarrow> string \<Rightarrow> nat \<Rightarrow> signal list" where
  "ma_period_signals thr indicators main_trend_bull main_trend_bear symbol period =
     (case indicators (ma_col period) of
        None \<Rightarrow> []
      | Some s \<Rightarrow>
          let ma_values = dropna s
          in if length ma_values \<ge> 6
             then concat (map (ma_direction_signals thr ma_values main_trend_bull
                                 main_trend_bear symbol period) [''bottom'', ''top''])
             else [])"

definition detect_ma_signals ::
  "real \<Rightarrow> (string \<rightharpoonup> series) \<Rightarrow> bool \<Rightarrow> bool \<Rightarrow> string \<Rightarrow> signal list" where
  "detect_ma_signals thr indicators main_trend_bull main_trend_bear symbol =
     concat (map (ma_period_signals thr indicators main_trend_bull main_trend_bear symbol)
                 ma_periods)"

text \<open>
  \<^verbatim>\<open>_detect_macd_signals\<close>. The two series come from a dict, so their lengths are
  independent: \<^verbatim>\<open>signal.iloc[-1]\<close> and \<^verbatim>\<open>signal.iloc[-2]\<close> can raise.
\<close>

definition detect_macd_signals :: "(string \<rightharpoonup> series) \<Rightarrow> string \<Rightarrow> py_error + signal list" where
  "detect_macd_signals indicators symbol =
     (case (indicators ''MACD'', indicators ''MACD_Signal'') of
        (Some macd, Some sig) \<Rightarrow>
          if length macd < 3 then Inr []
          else
            (case iloc_last sig of Inl e \<Rightarrow> Inl e | Inr s1 \<Rightarrow>
             case iloc_last2 sig of Inl e \<Rightarrow> Inl e | Inr s2 \<Rightarrow>
               let current_cross = fsub (last macd) s1;
                   prev_cross = fsub (macd ! (length macd - 2)) s2
               in if fle prev_cross (Some 0) \<and> fgt current_cross (Some 0)
                  then Inr [(symbol, ''macd_golden_cross'', int (length macd) - 1,
                             label_score ''macd_golden_cross'')]
                  else if fge prev_cross (Some 0) \<and> flt current_cross (Some 0)
                  then Inr [(symbol, ''macd_death_cross'', int (length macd) - 1,
                             label_score ''macd_death_cross'')]
                  else Inr [])
      | _ \<Rightarrow> Inr [])"

definition detect_rsi_signals :: "(string \<rightharpoonup> series) \<Rightarrow> string \<Rightarrow> signal list" where
  "detect_rsi_signals indicators symbol =
     (case indicators ''RSI'' of
        None \<Rightarrow> []
      | Some rsi \<Rightarrow>
          if length rsi < 3 then []
          else
            let current_rsi = last rsi
            in if fgt current_rsi (Some 70)
               then [(symbol, ''rsi_overbought'', int (length rsi) - 1,
                      label_score ''rsi_overbought'')]
               else if flt current_rsi (Some 30)
               then [(symbol, ''rsi_oversold'', int (length rsi) - 1,
                      label_score ''rsi_oversold'')]
               else [])"

text \<open>
  \<^verbatim>\<open>close.iloc[-1] > ma60.iloc[-1] if ma60 is not None else False\<close> (and the same with
  \<open><\<close>): without MA60 neither series is read.
\<close>

definition main_trend :: "series \<Rightarrow> series option \<Rightarrow> py_error + (bool \<times> bool)" where
  "main_trend close ma60 =
     (case ma60 of
        None \<Rightarrow> Inr (False, False)
      | Some m \<Rightarrow>
          (case iloc_last close of Inl e \<Rightarrow> Inl e | Inr c \<Rightarrow>
           case iloc_last m of Inl e \<Rightarrow> Inl e | Inr v \<Rightarrow> Inr (fgt c v, flt c v)))"

text \<open>
  \<^verbatim>\<open>run_all_strategies\<close> clears \<^verbatim>\<open>self.results\<close> and lets the three detectors append
  to it; the model returns the final list, or the exception that escapes.
\<close>

definition run_all_strategies ::
  "real \<Rightarrow> (string \<rightharpoonup> series) \<Rightarrow> (string \<rightharpoonup> series) \<Rightarrow> string \<Rightarrow> py_error + signal list" where
  "run_all_strategies thr data indicators symbol =
     (case data ''Close'' of
        None \<Rightarrow> Inr []
      | Some close \<Rightarrow>
          (case main_trend close (indicators ''MA60'') of
             Inl e \<Rightarrow> Inl e
           | Inr (main_trend_bull, main_trend_bear) \<Rightarrow>
               (case detect_macd_signals indicators symbol of
                  Inl e \<Rightarrow> Inl e
                | Inr macd_signals \<Rightarrow>
                    Inr (detect_ma_signals thr indicators main_trend_bull main_trend_bear symbol
                         @ macd_signals
                         @ detect_rsi_signals indicators symbol))))"

text \<open>
  \<^verbatim>\<open>detect_ma_alignment\<close>: only the length of MA5 is checked before the three
  \<^verbatim>\<open>iloc[-1]\<close> reads.
\<close>

definition alignment_if ::
  "(real option \<Rightarrow> real option \<Rightarrow> bool) \<Rightarrow> series \<Rightarrow> series \<Rightarrow> series \<Rightarrow> py_error + bool" where
  \<comment> \<open>the chained comparison \<^verbatim>\<open>ma5.iloc[-1] R ma10.iloc[-1] R ma20.iloc[-1]\<close>: the third
      operand is read only when the first comparison holds\<close>
  "alignment_if R ma5 ma10 ma20 =
     (case iloc_last ma5 of Inl e \<Rightarrow> Inl e | Inr a \<Rightarrow>
      case iloc_last ma10 of Inl e \<Rightarrow> Inl e | Inr b \<Rightarrow>
        if R a b
        then (case iloc_last ma20 of Inl e \<Rightarrow> Inl e | Inr c \<Rightarrow> Inr (R b c))
        else Inr False)"

definition detect_ma_alignment :: "(string \<rightharpoonup> series) \<Rightarrow> py_error + (bool \<times> string \<times> int)" where
  "detect_ma_alignment indicators =
     (case (indicators ''MA5'', indicators ''MA10'', indicators ''MA20'') of
        (Some ma5, Some ma10, Some ma20) \<Rightarrow>
          if length ma5 < 1 then Inr (False, '''', -1)
          else
            (case alignment_if fgt ma5 ma10 ma20 of
               Inl e \<Rightarrow> Inl e
             | Inr True \<Rightarrow> Inr (True, ''ma_multi_bull'', int (length ma5) - 1)
             | Inr False \<Rightarrow>
                 (case alignment_if flt ma5 ma10 ma20 of
                    Inl e \<Rightarrow> Inl e
                  | Inr True \<Rightarrow> Inr (True, ''ma_multi_bear'', int (length ma5) - 1)
                  | Inr False \<Rightarrow> Inr (False, '''', -1)))
      | _ \<Rightarrow> Inr (False, '''', -1))"

text \<open>
  The bottom-turn condition in the words of the specification, for comparison with
  \<open>detect_ma_turning_point\<close>: on the last three points of the series, the first
  difference is negative at the prior step and positive at the last step, the last close is
  above MA60, and \<open>|last - prev| / prev\<close> exceeds the threshold.
\<close>

definition spec_bottom_turn :: "real \<Rightarrow> real list \<Rightarrow> real \<Rightarrow> real \<Rightarrow> bool" where
  "spec_bottom_turn thr ma close_last ma60_last =
     (let n = length ma; prev2 = ma ! (n - 3); prev = ma ! (n - 2); lst = ma ! (n - 1)
      in prev - prev2 < 0 \<and> lst - prev > 0 \<and> close_last > ma60_last \<and>
         \<bar>lst - prev\<bar> / prev > thr)"

section \<open>MyQuantClient: the quote service\<close>

text \<open>
  A quote is the dict that the providers build for one stock code. Its keys are Chinese
  words in the source; the fields below are, in the order of the source, the price, the
  change in percent, the turnover rate, the time of the fetch, the source-type note that
  only the AKShare provider writes, and the data-source tag that \<^verbatim>\<open>get_realtime_data\<close>
  adds.

  A Python dict is an association list with unique keys: \<^verbatim>\<open>d[k] = v\<close> is
  \<open>AList.update k v d\<close>, \<^verbatim>\<open>k in d\<close> is \<open>map_of d k \<noteq> None\<close>, and a dict is falsy when
  it is \<open>[]\<close>. Times (\<^verbatim>\<open>datetime.now()\<close>) are seconds as real numbers.
\<close>

record quote =
  price :: real
  change_pct :: real
  turnover_rate :: real
  time_str :: string
  source_type :: "string option"
  data_source :: "string option"

type_synonym 'v dict = "(string \<times> 'v) list"

text \<open>
  What the vendor returns. A tick of \<^verbatim>\<open>gm.current\<close> is read with
  \<^verbatim>\<open>data.get("symbol", "")\<close>, \<^verbatim>\<open>data.get("price", 0)\<close> and
  \<^verbatim>\<open>data.get("cum_volume", 0)\<close>: \<open>None\<close> is a missing key. A bar of \<^verbatim>\<open>gm.history\<close> is
  read with \<^verbatim>\<open>.get("close", 0)\<close>. A row of the AKShare table carries the code and three
  values that go through \<^verbatim>\<open>float(...)\<close>: \<open>None\<close> is a value on which \<^verbatim>\<open>float\<close> raises.
  The source-type note of the AKShare provider, a Chinese text in the source, is written
  \<open>''AKShare''\<close>.
\<close>

record tick =
  tick_symbol :: "string option"
  tick_price :: "real option"
  tick_cum_volume :: "real option"

type_synonym bar = "real option"

record ak_row =
  ak_code :: string
  ak_latest_price :: "real option"
  ak_change_pct :: "real option"
  ak_turnover_rate :: "real option"

text \<open>
  The world outside the client during one call: the two module flags, the outcome of the
  two AKShare snapshot calls (raising, returning \<^verbatim>\<open>None\<close>, or returning a table), the
  vendor's quote and history calls (\<^verbatim>\<open>gm.history\<close> for yesterday's session and
  \<^verbatim>\<open>gm.history_n\<close> with \<^verbatim>\<open>count=3\<close>, both for one symbol), and the clock string
  \<^verbatim>\<open>datetime.now().strftime("%H:%M:%S")\<close>.
\<close>

record env =
  MYQUANT_AVAILABLE :: bool
  AKSHARE_AVAILABLE :: bool
  stock_zh_a_spot_em :: "py_error + ak_row list option"
  stock_zh_a_spot_gs :: "py_error + ak_row list option"
  gm_current :: "string list \<Rightarrow> py_error + tick list"
  gm_history :: "string \<Rightarrow> py_error + bar list"
  gm_history_n :: "string \<Rightarrow> py_error + bar list"
  now_hms :: string

record client =
  connected :: bool
  token :: "string option"
  account_id :: "string option"
  data_cache :: "quote dict"
  cache_time :: "real dict"
  cache_expiry :: real

text \<open>\<^verbatim>\<open>MyQuantClient.__init__\<close>.\<close>

definition init_client :: client where
  "init_client = \<lparr>connected = False, token = None, account_id = None,
                   data_cache = [], cache_time = [], cache_expiry = 5\<rparr>"

definition is_connected :: "client \<Rightarrow> env \<Rightarrow> bool" where
  "is_connected c e = (connected c \<and> MYQUANT_AVAILABLE e)"

text \<open>\<^verbatim>\<open>symbol.split(".")[0]\<close>, \<^verbatim>\<open>str.isdigit\<close> on ASCII text, and \<^verbatim>\<open>str.startswith\<close>
  with a tuple of prefixes.\<close>

definition clean_code_of :: "string \<Rightarrow> string" where
  "clean_code_of symbol = takeWhile (\<lambda>ch. ch \<noteq> CHR ''.'') symbol"

definition isdigit :: "string \<Rightarrow> bool" where
  "isdigit s = (s \<noteq> [] \<and> list_all (\<lambda>ch. ch \<in> set ''0123456789'') s)"

definition startswith :: "string \<Rightarrow> string list \<Rightarrow> bool" where
  "startswith s prefixes = list_ex (\<lambda>p. take (length p) s = p) prefixes"

subsection \<open>Double-precision arithmetic\<close>

text \<open>
  The float operations of the quote service round as IEEE 754 binary64 does: the exact
  result is replaced by the nearest number with a 53-bit significand, a tie going to the
  even significand. \<open>ulp y\<close> is the spacing of the doubles around the positive number
  \<open>y\<close>, the power of two \<open>s\<close> with \<open>2^52 \<le> y / s < 2^53\<close>, found by doubling or halving
  from 1; the halving stops at \<open>2^-1074\<close>, the spacing of the subnormal numbers. Results
  beyond the largest double (infinity in the machine) are outside the model.
\<close>

definition round_half_even :: "real \<Rightarrow> int" where
  "round_half_even z =
     (let f = \<lfloor>z\<rfloor>; r = z - of_int f
      in if r < 1 / 2 then f else if r > 1 / 2 then f + 1
         else if even f then f else f + 1)"

fun ulp_up :: "nat \<Rightarrow> real \<Rightarrow> real \<Rightarrow> real" where
  "ulp_up n y s =
     (if n = 0 then s else if 2 ^ 53 \<le> y / s then ulp_up (n - 1) y (s * 2) else s)"

fun ulp_down :: "nat \<Rightarrow> real \<Rightarrow> real \<Rightarrow> real" where
  "ulp_down n y s =
     (if n = 0 then s else if y / s < 2 ^ 52 then ulp_down (n - 1) y (s / 2) else s)"

declare ulp_up.simps [simp del] ulp_down.simps [simp del]

definition ulp :: "real \<Rightarrow> real" where
  "ulp y = ulp_down 1074 y (ulp_up 971 y 1)"

definition fl :: "real \<Rightarrow> real" where
  "fl x = (if x = 0 then 0
           else let s = ulp \<bar>x\<bar> in sgn x * of_int (round_half_even (\<bar>x\<bar> / s)) * s)"

definition float_sub :: "real \<Rightarrow> real \<Rightarrow> real" where
  "float_sub a b = fl (a - b)"

definition float_div :: "real \<Rightarrow> real \<Rightarrow> real" where
  "float_div a b = fl (a / b)"

definition float_mul :: "real \<Rightarrow> real \<Rightarrow> real" where
  "float_mul a b = fl (a * b)"

text \<open>\<^verbatim>\<open>round(x, 2)\<close> of a float: the value of \<open>x\<close> is rounded to the nearest multiple
  of 0.01, a tie going to the even multiple, and the result is the double nearest to that
  decimal.\<close>

definition py_round2 :: "real \<Rightarrow> real" where
  "py_round2 x = fl (of_int (round_half_even (x * 100)) / 100)"

subsection \<open>The MyQuant fallback\<close>

text \<open>The exchange prefix of a clean code (the body of the first loop of
  \<^verbatim>\<open>_get_realtime_data_from_myquant\<close>); \<open>None\<close> is a code that the loop passes over.\<close>

definition gm_symbol_of :: "string \<Rightarrow> string option" where
  "gm_symbol_of clean_code =
     (if length clean_code = 6 \<and> isdigit clean_code
      then if startswith clean_code [''60'', ''68'', ''11'', ''12'', ''13'']
           then Some (''SHSE.'' @ clean_code)
           else if startswith clean_code [''00'', ''30'', ''12'', ''15'', ''16'', ''18'']
           then Some (''SZSE.'' @ clean_code)
           else None
      else None)"

definition convert_symbols :: "string list \<Rightarrow> string list \<times> string dict" where
  "convert_symbols symbols =
     fold (\<lambda>symbol (gm_symbols, code_map).
             let clean_code = clean_code_of symbol
             in case gm_symbol_of clean_code of
                  None \<Rightarrow> (gm_symbols, code_map)
                | Some gm_symbol \<Rightarrow>
                    (gm_symbols @ [gm_symbol], AList.update gm_symbol clean_code code_map))
          symbols ([], [])"

definition bar_close :: "bar \<Rightarrow> real" where
  "bar_close b = (case b of Some v \<Rightarrow> v | None \<Rightarrow> 0)"

text \<open>The change in percent of one tick: the \<^verbatim>\<open>try\<close> block around the two history
  queries. Any exception leaves \<^verbatim>\<open>change_pct = 0\<close>.\<close>

definition pct_from_close :: "real \<Rightarrow> real \<Rightarrow> real" where
  "pct_from_close current_price pre_close =
     (if pre_close > 0 \<and> current_price > 0
      then py_round2 (float_mul (float_div (float_sub current_price pre_close) pre_close) 100)
      else 0)"

definition change_pct_of :: "env \<Rightarrow> string \<Rightarrow> real \<Rightarrow> real" where
  "change_pct_of e symbol current_price =
     (case gm_history e symbol of
        Inl err \<Rightarrow> 0
      | Inr hist_data \<Rightarrow>
          if hist_data \<noteq> []
          then pct_from_close current_price (bar_close (last hist_data))
          else
            (case gm_history_n e symbol of
               Inl err \<Rightarrow> 0
             | Inr hist_data_n \<Rightarrow>
                 if length hist_data_n \<ge> 2
                 then pct_from_close current_price
                        (bar_close (hist_data_n ! (length hist_data_n - 2)))
                 else 0))"

definition turnover_of :: "real \<Rightarrow> real" where
  "turnover_of volume = (if volume > 0 then py_round2 (float_div volume 10000000) else 0)"

text \<open>The body of the second loop: the entry that one tick writes into the result, or
  \<open>None\<close> when its symbol is not in \<^verbatim>\<open>code_map\<close>.\<close>

definition tick_entry :: "env \<Rightarrow> string dict \<Rightarrow> tick \<Rightarrow> (string \<times> quote) option" where
  "tick_entry e code_map data =
     (let symbol = (case tick_symbol data of Some s \<Rightarrow> s | None \<Rightarrow> '''')
      in case map_of code_map symbol of
           None \<Rightarrow> None
         | Some code \<Rightarrow>
             if code = [] then None
             else
               let current_price = (case tick_price data of Some p \<Rightarrow> p | None \<Rightarrow> 0);
                   volume = (case tick_cum_volume data of Some v \<Rightarrow> v | None \<Rightarrow> 0)
               in Some (code,
                    \<lparr>price = current_price,
                     change_pct = change_pct_of e symbol current_price,
                     turnover_rate = turnover_of volume,
                     time_str = now_hms e,
                     source_type = None, data_source = None\<rparr>))"

definition get_realtime_data_from_myquant :: "client \<Rightarrow> env \<Rightarrow> string list \<Rightarrow> quote dict" where
  "get_realtime_data_from_myquant c e symbols =
     (if \<not> is_connected c e \<or> symbols = [] then []
      else
        let (gm_symbols, code_map) = convert_symbols symbols
        in if gm_symbols = [] then []
           else
             (case gm_current e gm_symbols of
                Inl err \<Rightarrow> []
              | Inr current_data \<Rightarrow>
                  if current_data = [] then []
                  else fold (\<lambda>data result.
                               case tick_entry e code_map data of
                                 None \<Rightarrow> result
                               | Some (code, q) \<Rightarrow> AList.update code q result)
                            current_data []))"

subsection \<open>The AKShare primary provider\<close>

text \<open>The snapshot table: the first call, the second one when the first raises. \<open>None\<close>
  is every path on which the function returns its empty result at once.\<close>

definition ak_table :: "env \<Rightarrow> ak_row list option" where
  "ak_table e =
     (case stock_zh_a_spot_em e of
        Inr None \<Rightarrow> None
      | Inr (Some df) \<Rightarrow> if df = [] then None else Some df
      | Inl err \<Rightarrow>
          (case stock_zh_a_spot_gs e of
             Inr None \<Rightarrow> None
           | Inr (Some df) \<Rightarrow> if df = [] then None else Some df
           | Inl err2 \<Rightarrow> None))"

definition ak_entry :: "env \<Rightarrow> ak_row list \<Rightarrow> string \<Rightarrow> (string \<times> quote) option" where
  "ak_entry e df symbol =
     (let clean_code = clean_code_of symbol
      in if length clean_code \<noteq> 6 \<or> \<not> isdigit clean_code then None
         else
           (case filter (\<lambda>r. ak_code r = clean_code) df of
              [] \<Rightarrow> None
            | row # rest \<Rightarrow>
                (case (ak_latest_price row, ak_change_pct row, ak_turnover_rate row) of
                   (Some p, Some ch, Some t) \<Rightarrow>
                     Some (clean_code,
                       \<lparr>price = p, change_pct = ch, turnover_rate = t, time_str = now_hms e,
                        source_type = Some ''AKShare'', data_source = None\<rparr>)
                 | _ \<Rightarrow> None)))"

definition get_realtime_data_from_akshare :: "env \<Rightarrow> string list \<Rightarrow> quote dict" where
  "get_realtime_data_from_akshare e symbols =
     (case ak_table e of
        None \<Rightarrow> []
      | Some df \<Rightarrow>
          fold (\<lambda>symbol result.
                  case ak_entry e df symbol of
                    None \<Rightarrow> result
                  | Some (code, q) \<Rightarrow> AList.update code q result)
               symbols [])"

subsection \<open>get_realtime_data\<close>

text \<open>
  The calls of the two providers are recorded, so that a property can say which provider
  ran: \<open>get_realtime_data\<close> returns the client with its updated cache, the result dict and
  the list of provider calls it made, each with the batch it passed.
\<close>

datatype provider_call = AKShareCall "string list" | MyQuantCall "string list"

text \<open>The first loop: cache hits go into \<open>result\<close>, the other symbols into
  \<open>need_fetch\<close>. \<open>check_cache_step\<close> is the body of the loop.\<close>

definition check_cache_step ::
  "client \<Rightarrow> bool \<Rightarrow> real \<Rightarrow> string \<Rightarrow> quote dict \<times> string list \<Rightarrow> quote dict \<times> string list" where
  "check_cache_step c force_refresh current_time symbol =
     (\<lambda>(result, need_fetch).
        let clean_code = clean_code_of symbol
        in if force_refresh then (result, need_fetch @ [symbol])
           else
             (case (map_of (data_cache c) clean_code, map_of (cache_time c) clean_code) of
                (Some data, Some t) \<Rightarrow>
                  if current_time - t < cache_expiry c
                  then (AList.update clean_code data result, need_fetch)
                  else (result, need_fetch @ [symbol])
              | _ \<Rightarrow> (result, need_fetch @ [symbol])))"

definition check_cache ::
  "client \<Rightarrow> bool \<Rightarrow> real \<Rightarrow> string list \<Rightarrow> quote dict \<times> string list" where
  "check_cache c force_refresh current_time symbols =
     fold (check_cache_step c force_refresh current_time) symbols ([], [])"

text \<open>The provider chain (the two guarded calls). Both providers catch every exception
  themselves, so the \<^verbatim>\<open>except\<close> branches around the calls are never taken.\<close>

definition fetch_chain ::
  "client \<Rightarrow> env \<Rightarrow> string list \<Rightarrow> quote dict \<times> bool \<times> provider_call list" where
  "fetch_chain c e need_fetch =
     (let (fetched_data, akshare_success, calls) =
            (if AKSHARE_AVAILABLE e
             then let fd = get_realtime_data_from_akshare e need_fetch
                  in (fd, fd \<noteq> [], [AKShareCall need_fetch])
             else ([], False, []))
      in if \<not> akshare_success \<and> fetched_data = [] \<and> is_connected c e
         then (get_realtime_data_from_myquant c e need_fetch, akshare_success,
               calls @ [MyQuantCall need_fetch])
         else (fetched_data, akshare_success, calls))"

text \<open>The last loop: tag the quote with the provider that produced it, write it to both
  cache dicts, merge it into the result.\<close>

definition tag_source :: "bool \<Rightarrow> quote \<Rightarrow> quote" where
  "tag_source akshare_success data =
     data\<lparr>data_source := Some (if akshare_success then ''AKShare'' else ''MyQuant'')\<rparr>"

definition store_fetched ::
  "bool \<Rightarrow> real \<Rightarrow> quote dict \<Rightarrow> client \<times> quote dict \<Rightarrow> client \<times> quote dict" where
  "store_fetched akshare_success current_time fetched_data =
     fold (\<lambda>(code, data) (c, result).
             let data' = tag_source akshare_success data
             in (c\<lparr>data_cache := AList.update code data' (data_cache c),
                   cache_time := AList.update code current_time (cache_time c)\<rparr>,
                 AList.update code data' result))
          fetched_data"

definition get_realtime_data ::
  "client \<Rightarrow> env \<Rightarrow> string list \<Rightarrow> bool \<Rightarrow> real \<Rightarrow> client \<times> quote dict \<times> provider_call list" where
  "get_realtime_data c e symbols force_refresh current_time =
     (if symbols = [] then (c, [], [])
      else
        let (result, need_fetch) = check_cache c force_refresh current_time symbols
        in if need_fetch = [] then (c, result, [])
           else
             let (fetched_data, akshare_success, calls) = fetch_chain c e need_fetch;
                 (c', result') = store_fetched akshare_success current_time fetched_data (c, result)
             in (c', result', calls))"

definition clear_cache :: "client \<Rightarrow> client" where
  "clear_cache c = c\<lparr>data_cache := [], cache_time := []\<rparr>"

text \<open>
  The baseline close and the change ratio in the words of the specification, for comparison
  with \<open>change_pct_of\<close>: the prior trading day's close from the dated history query; if
  that query is empty, the second-most-recent close of the last three sessions; the change
  is (current price - baseline close) / baseline close.
\<close>

definition spec_baseline_close :: "env \<Rightarrow> string \<Rightarrow> real option" where
  "spec_baseline_close e symbol =
     (case gm_history e symbol of
        Inr (b # bs) \<Rightarrow> Some (bar_close (last (b # bs)))
      | Inr [] \<Rightarrow>
          (case gm_history_n e symbol of
             Inr hs \<Rightarrow> if 2 \<le> length hs then Some (bar_close (hs ! (length hs - 2))) else None
           | Inl err \<Rightarrow> None)
      | Inl err \<Rightarrow> None)"

definition spec_change_ratio :: "real \<Rightarrow> real \<Rightarrow> real" where
  "spec_change_ratio current_price baseline = (current_price - baseline) / baseline"


section \<open>MyQuantClient: connecting\<close>

text \<open>
  \<^verbatim>\<open>connect\<close> runs every vendor call on a worker thread and waits for it with a
  timeout. The threads are modelled by what the waiting side can observe: a vendor call
  returns a value after some seconds, raises after some seconds, or never finishes. Code
  between the vendor calls takes no time. Where a call finishes at the very instant its
  timeout ends, the source's outcome depends on the scheduler; the model counts such a
  call as finished, and no property below depends on that choice.
\<close>

datatype 'a api_call = Returns real 'a | Raises real py_error | Hangs

text \<open>The second component of the pair that \<^verbatim>\<open>test_api_call\<close> returns: \<^verbatim>\<open>None\<close>,
  the result of the call, or the exception it raised.\<close>

datatype 'a payload = PyNone | Result 'a | Exn py_error

definition test_api_call :: "'a api_call \<Rightarrow> real \<Rightarrow> bool \<times> 'a payload" where
  "test_api_call api_func timeout =
     (case api_func of
        Returns d v \<Rightarrow> if d \<le> timeout then (True, Result v) else (False, PyNone)
      | Raises d err \<Rightarrow> if d \<le> timeout then (False, Exn err) else (False, PyNone)
      | Hangs \<Rightarrow> (False, PyNone))"

text \<open>How long \<^verbatim>\<open>completed.wait(timeout)\<close> blocks the caller.\<close>

definition call_elapsed :: "'a api_call \<Rightarrow> real \<Rightarrow> real" where
  "call_elapsed api_func timeout =
     (case api_func of
        Returns d v \<Rightarrow> min d timeout
      | Raises d err \<Rightarrow> min d timeout
      | Hangs \<Rightarrow> timeout)"

text \<open>
  The four vendor calls of one connection attempt. \<^verbatim>\<open>gm.current\<close> returns \<^verbatim>\<open>None\<close>
  or a list of ticks; the results of the other calls are not read.
\<close>

record gm_probe =
  set_token_call :: "unit api_call"
  set_account_id_call :: "unit api_call"
  current_call :: "tick list option api_call"
  get_cash_call :: "unit api_call"

text \<open>\<^verbatim>\<open>self.config.get("myquant.token")\<close> and \<^verbatim>\<open>self.config.get("myquant.account_id")\<close>.\<close>

record config =
  config_token :: "string option"
  config_account_id :: "string option"

text \<open>Python truthiness of an optional string.\<close>

definition truthy :: "string option \<Rightarrow> bool" where
  "truthy s = (case s of None \<Rightarrow> False | Some v \<Rightarrow> v \<noteq> [])"

text \<open>
  The two probes that can prove the connection: the canary quote
  (\<^verbatim>\<open>success and data is not None and len(data) > 0\<close>, within 3 seconds) and the cash
  balance (\<^verbatim>\<open>success\<close>, within 2 seconds).
\<close>

definition quote_probe_ok :: "gm_probe \<Rightarrow> bool" where
  "quote_probe_ok p =
     (let (success, data) = test_api_call (current_call p) 3
      in success \<and> (case data of Result (Some ticks) \<Rightarrow> length ticks > 0 | _ \<Rightarrow> False))"

definition cash_probe_ok :: "gm_probe \<Rightarrow> bool" where
  "cash_probe_ok p = (let (success, r) = test_api_call (get_cash_call p) 2 in success)"

text \<open>
  \<^verbatim>\<open>connect_worker\<close>: whether it sets \<^verbatim>\<open>connection_success\<close>, and the time at which
  it ends (it sets the event right before it returns).
\<close>

definition connect_worker :: "client \<Rightarrow> gm_probe \<Rightarrow> bool \<times> real" where
  "connect_worker c p =
     (let (success1, r1) = test_api_call (set_token_call p) 1;
          t1 = call_elapsed (set_token_call p) 1
      in if \<not> success1 then (False, t1)
         else
           let t2 = t1 + (if truthy (account_id c)
                          then call_elapsed (set_account_id_call p) 1 else 0);
               t3 = t2 + call_elapsed (current_call p) 3
           in if quote_probe_ok p then (True, t3)
              else
                let t4 = t3 + call_elapsed (get_cash_call p) 2
                in if cash_probe_ok p then (True, t4) else (False, t4))"

text \<open>
  The branch that \<^verbatim>\<open>connect\<close> ends in, which decides the messages it logs: connected,
  timed out, probe failed, or the vendor API not importable.
\<close>

datatype connect_outcome = Connected | TimedOut | ProbeFailed | ApiUnavailable

definition default_token :: string where
  "default_token = ''85db8b06e888f0e16b7041da679079ecd529e117''"

definition default_account_id :: string where
  "default_account_id = ''41702793-80bf-11f0-8b8b-00163e022aa6''"

text \<open>
  \<^verbatim>\<open>connect\<close>. The timer sets \<^verbatim>\<open>timeout_occurred\<close> after 4 seconds unless it is
  cancelled first, and it is cancelled when \<^verbatim>\<open>connect_thread.join(timeout=5.0)\<close>
  returns: when the worker ends, or after 5 seconds. \<^verbatim>\<open>connection_success\<close> is seen only
  if the worker has set it by then. The model returns the client, the boolean that
  \<^verbatim>\<open>connect\<close> returns, and the branch taken. The outer \<^verbatim>\<open>except\<close> of \<^verbatim>\<open>connect\<close>
  (an exception of the thread machinery itself) has no counterpart: nothing in the
  modelled body raises, the worker catches its own exceptions.
\<close>

definition connect :: "client \<Rightarrow> env \<Rightarrow> config \<Rightarrow> gm_probe \<Rightarrow> client \<times> bool \<times> connect_outcome" where
  "connect c e cfg p =
     (if \<not> MYQUANT_AVAILABLE e then (c, False, ApiUnavailable)
      else
        let c1 = c\<lparr>token := (if truthy (config_token cfg) then config_token cfg
                               else Some default_token),
                    account_id := (if truthy (config_account_id cfg) then config_account_id cfg
                                   else Some default_account_id)\<rparr>;
            (success, t_end) = connect_worker c1 p;
            t_join = min t_end 5;
            connection_success = (success \<and> t_end \<le> 5);
            timeout_occurred = (4 \<le> t_join)
        in if connection_success then (c1\<lparr>connected := True\<rparr>, True, Connected)
           else if timeout_occurred then (c1\<lparr>connected := False\<rparr>, False, TimedOut)
           else (c1\<lparr>connected := False\<rparr>, False, ProbeFailed))"

text \<open>
  The contract of the bounded task runner in the words of the specification: a triple
  (completed, result, error), with \<open>completed\<close> true whenever the operation finishes
  within the timeout, also when it raises.
\<close>

definition spec_run :: "'a api_call \<Rightarrow> real \<Rightarrow> bool \<times> 'a option \<times> py_error option" where
  "spec_run operation timeout =
     (case operation of
        Returns d v \<Rightarrow> if d \<le> timeout then (True, Some v, None) else (False, None, None)
      | Raises d err \<Rightarrow> if d \<le> timeout then (True, None, Some err) else (False, None, None)
      | Hangs \<Rightarrow> (False, None, None))"

section \<open>Properties of the signal engine\<close>

subsection \<open>Names and the last three points\<close>

lemma str_nat_vals: "str_nat 5 = ''5''" "str_nat 10 = ''10''" "str_nat 20 = ''20''" "str_nat 60 = ''60''"
  by (simp_all add: str_nat.simps digit_char_def)

lemma turn_name_vals:
  "turn_name 5 ''bottom'' = ''ma5_bottom_turn''" "turn_name 5 ''top'' = ''ma5_top_turn''"
  "turn_name 10 ''bottom'' = ''ma10_bottom_turn''" "turn_name 10 ''top'' = ''ma10_top_turn''"
  "turn_name 20 ''bottom'' = ''ma20_bottom_turn''" "turn_name 20 ''top'' = ''ma20_top_turn''"
  "turn_name 60 ''bottom'' = ''ma60_bottom_turn''" "turn_name 60 ''top'' = ''ma60_top_turn''"
  by (simp_all add: turn_name_def str_nat_vals)

lemma ma_col_vals:
  "ma_col 5 = ''MA5''" "ma_col 10 = ''MA10''" "ma_col 20 = ''MA20''" "ma_col 60 = ''MA60''"
  by (simp_all add: ma_col_def str_nat_vals)

lemma gradient3: "gradient [a, b, c] = [b - a, (c - a) / 2, c - b]"
  by (simp add: gradient_def upt_rec)

lemma drop_last3:
  assumes "3 \<le> length v"
  shows "drop (length v - 3) v = [v ! (length v - 3), v ! (length v - 2), v ! (length v - 1)]"
proof -
  let ?n = "length v"
  have "length (drop (?n - 3) v) = 3" using assms by simp
  moreover have "\<And>i. i < 3 \<Longrightarrow> drop (?n - 3) v ! i = v ! (?n - 3 + i)"
    using assms by simp
  ultimately show ?thesis
    using assms by (auto simp: list_eq_iff_nth_eq nth_Cons' numeral_3_eq_3 numeral_2_eq_2 less_Suc_eq)
qed

lemma turning_point_bottom:
  assumes "3 \<le> length v"
  shows "detect_ma_turning_point thr v ''bottom'' =
     (let n = length v; a = v ! (n - 3); b = v ! (n - 2); c = v ! (n - 1)
      in if thr < (if b \<noteq> 0 then \<bar>(c - b) / b\<bar> else 0) \<and> (c - a) / 2 < 0 \<and> 0 < c - b
         then (True, int n - 1) else (False, -1))"
  using assms by (simp add: detect_ma_turning_point_def drop_last3 gradient3 Let_def)

lemma turning_point_top:
  assumes "3 \<le> length v"
  shows "detect_ma_turning_point thr v ''top'' =
     (let n = length v; a = v ! (n - 3); b = v ! (n - 2); c = v ! (n - 1)
      in if thr < (if b \<noteq> 0 then \<bar>(c - b) / b\<bar> else 0) \<and> 0 < (c - a) / 2 \<and> c - b < 0
         then (True, int n - 1) else (False, -1))"
  using assms by (simp add: detect_ma_turning_point_def drop_last3 gradient3 Let_def)


lemma direction_signals_mem:
  "(sy, nm, idx, sc) \<in> set (ma_direction_signals thr v bull bear symbol period d) \<longleftrightarrow>
     ((d = ''bottom'' \<and> bull) \<or> (d = ''top'' \<and> bear)) \<and>
     fst (detect_ma_turning_point thr v d) \<and>
     sy = symbol \<and> nm = turn_name period d \<and>
     idx = snd (detect_ma_turning_point thr v d) \<and> sc = label_score (turn_name period d)"
  by (auto simp: ma_direction_signals_def Let_def case_prod_beta)

lemma period_signals_mem:
  "sg \<in> set (ma_period_signals thr indicators bull bear symbol period) \<longleftrightarrow>
     (\<exists>s. indicators (ma_col period) = Some s \<and> 6 \<le> length (dropna s) \<and>
          (sg \<in> set (ma_direction_signals thr (dropna s) bull bear symbol period ''bottom'') \<or>
           sg \<in> set (ma_direction_signals thr (dropna s) bull bear symbol period ''top'')))"
  by (cases "indicators (ma_col period)") (auto simp: ma_period_signals_def Let_def)

lemma ma_signals_mem:
  "sg \<in> set (detect_ma_signals thr indicators bull bear symbol) \<longleftrightarrow>
     (\<exists>p \<in> set ma_periods. sg \<in> set (ma_period_signals thr indicators bull bear symbol p))"
  by (simp add: detect_ma_signals_def)

lemma turn_name_inj:
  assumes "p \<in> set ma_periods" "q \<in> set ma_periods"
      and "d \<in> {''bottom'', ''top''}" "e \<in> {''bottom'', ''top''}"
      and "turn_name p d = turn_name q e"
  shows "p = q \<and> d = e"
  using assms by (auto simp: ma_periods_def turn_name_vals)

lemma ma_signal_names:
  assumes "sg \<in> set (detect_ma_signals thr indicators bull bear symbol)"
  shows "signal_name sg \<in> {''ma5_bottom_turn'', ''ma5_top_turn'', ''ma10_bottom_turn'',
           ''ma10_top_turn'', ''ma20_bottom_turn'', ''ma20_top_turn'', ''ma60_bottom_turn'',
           ''ma60_top_turn''}"
proof -
  obtain sy nm idx sc where sg: "sg = (sy, nm, idx, sc)" by (cases sg) auto
  from assms obtain p d where "p \<in> set ma_periods" "d \<in> {''bottom'', ''top''}"
      "nm = turn_name p d"
    unfolding sg ma_signals_mem period_signals_mem direction_signals_mem by blast
  then show ?thesis
    by (auto simp: sg signal_name_def ma_periods_def turn_name_vals)
qed

lemma macd_signal_names:
  assumes "detect_macd_signals indicators symbol = Inr ms" "sg \<in> set ms"
  shows "signal_name sg \<in> {''macd_golden_cross'', ''macd_death_cross''}"
  using assms
  by (auto simp: detect_macd_signals_def signal_name_def Let_def
      split: option.splits if_splits sum.splits)

lemma rsi_signal_names:
  assumes "sg \<in> set (detect_rsi_signals indicators symbol)"
  shows "signal_name sg \<in> {''rsi_overbought'', ''rsi_oversold''}"
  using assms
  by (auto simp: detect_rsi_signals_def signal_name_def Let_def split: option.splits if_splits)

lemma run_all_strategies_Inr:
  assumes "run_all_strategies thr data indicators symbol = Inr rs"
  shows "(data ''Close'' = None \<and> rs = []) \<or>
         (\<exists>close bull bear ms. data ''Close'' = Some close \<and>
            main_trend close (indicators ''MA60'') = Inr (bull, bear) \<and>
            detect_macd_signals indicators symbol = Inr ms \<and>
            rs = detect_ma_signals thr indicators bull bear symbol @ ms
                 @ detect_rsi_signals indicators symbol)"
  using assms
  by (auto simp: run_all_strategies_def split: option.splits sum.splits prod.splits)

lemma main_trend_Inr:
  assumes "main_trend close mo = Inr (bull, bear)"
  shows "bull = (\<exists>m. mo = Some m \<and> fgt (last close) (last m))"
    and "bear = (\<exists>m. mo = Some m \<and> flt (last close) (last m))"
  using assms
  by (auto simp: main_trend_def iloc_last_def split: option.splits if_splits)

lemma ma_turn_mem:
  assumes "p \<in> set ma_periods" "d \<in> {''bottom'', ''top''}"
  shows "(\<exists>idx sc. (symbol, turn_name p d, idx, sc)
            \<in> set (detect_ma_signals thr indicators bull bear symbol)) \<longleftrightarrow>
         ((d = ''bottom'' \<and> bull) \<or> (d = ''top'' \<and> bear)) \<and>
         (\<exists>s. indicators (ma_col p) = Some s \<and> 6 \<le> length (dropna s) \<and>
              fst (detect_ma_turning_point thr (dropna s) d))"
    (is "?L \<longleftrightarrow> ?R")
proof
  assume ?L
  then obtain idx sc q s e where q: "q \<in> set ma_periods" and e: "e \<in> {''bottom'', ''top''}"
    and s: "indicators (ma_col q) = Some s" "6 \<le> length (dropna s)"
    and m: "(symbol, turn_name p d, idx, sc)
              \<in> set (ma_direction_signals thr (dropna s) bull bear symbol q e)"
    unfolding ma_signals_mem period_signals_mem by blast
  from m have nm: "turn_name p d = turn_name q e" and
    rest: "(e = ''bottom'' \<and> bull) \<or> (e = ''top'' \<and> bear)"
      "fst (detect_ma_turning_point thr (dropna s) e)"
    unfolding direction_signals_mem by simp_all
  from turn_name_inj[OF assms(1) q assms(2) e nm] have "p = q" "d = e" by simp_all
  with s rest show ?R by blast
next
  assume R: ?R
  then obtain s where s: "indicators (ma_col p) = Some s" "6 \<le> length (dropna s)"
    "fst (detect_ma_turning_point thr (dropna s) d)" by blast
  have "(symbol, turn_name p d, snd (detect_ma_turning_point thr (dropna s) d),
          label_score (turn_name p d))
        \<in> set (ma_direction_signals thr (dropna s) bull bear symbol p d)"
    unfolding direction_signals_mem using R s by simp
  then have "(symbol, turn_name p d, snd (detect_ma_turning_point thr (dropna s) d),
          label_score (turn_name p d))
        \<in> set (detect_ma_signals thr indicators bull bear symbol)"
    unfolding ma_signals_mem period_signals_mem using assms s by auto
  then show ?L by blast
qed

lemma turn_name_not_other:
  assumes "p \<in> set ma_periods" "d \<in> {''bottom'', ''top''}"
  shows "turn_name p d \<notin> {''macd_golden_cross'', ''macd_death_cross'',
            ''rsi_overbought'', ''rsi_oversold''}"
  using assms by (auto simp: ma_periods_def turn_name_vals)

lemma run_all_turn_mem:
  assumes run: "run_all_strategies thr data indicators symbol = Inr rs"
      and p: "p \<in> set ma_periods" and d: "d \<in> {''bottom'', ''top''}"
  shows "(\<exists>idx sc. (symbol, turn_name p d, idx, sc) \<in> set rs) \<longleftrightarrow>
         (\<exists>close ma60 s. data ''Close'' = Some close \<and> indicators ''MA60'' = Some ma60 \<and>
            ((d = ''bottom'' \<and> fgt (last close) (last ma60)) \<or>
             (d = ''top'' \<and> flt (last close) (last ma60))) \<and>
            indicators (ma_col p) = Some s \<and> 6 \<le> length (dropna s) \<and>
            fst (detect_ma_turning_point thr (dropna s) d))"
proof -
  from run_all_strategies_Inr[OF run] show ?thesis
  proof (elim disjE conjE exE)
    assume "data ''Close'' = None" "rs = []"
    then show ?thesis by simp
  next
    fix close bull bear ms
    assume c: "data ''Close'' = Some close"
      and t: "main_trend close (indicators ''MA60'') = Inr (bull, bear)"
      and ms: "detect_macd_signals indicators symbol = Inr ms"
      and rs: "rs = detect_ma_signals thr indicators bull bear symbol @ ms
                 @ detect_rsi_signals indicators symbol"
    have other: "(symbol, turn_name p d, idx, sc) \<notin> set ms"
       "(symbol, turn_name p d, idx, sc) \<notin> set (detect_rsi_signals indicators symbol)"
      for idx sc
      using macd_signal_names[OF ms, of "(symbol, turn_name p d, idx, sc)"]
        rsi_signal_names[of "(symbol, turn_name p d, idx, sc)" indicators symbol]
        turn_name_not_other[OF p d]
      by (auto simp: signal_name_def)
    have "(\<exists>idx sc. (symbol, turn_name p d, idx, sc) \<in> set rs) \<longleftrightarrow>
          (\<exists>idx sc. (symbol, turn_name p d, idx, sc)
             \<in> set (detect_ma_signals thr indicators bull bear symbol))"
      unfolding rs using other by simp
    also have "\<dots> \<longleftrightarrow> ((d = ''bottom'' \<and> bull) \<or> (d = ''top'' \<and> bear)) \<and>
         (\<exists>s. indicators (ma_col p) = Some s \<and> 6 \<le> length (dropna s) \<and>
              fst (detect_ma_turning_point thr (dropna s) d))"
      by (rule ma_turn_mem[OF p d])
    finally show ?thesis
      unfolding main_trend_Inr[OF t] using c by auto
  qed
qed

subsection \<open>Turning points\<close>

text \<open>
  C5 as the code has it. When \<open>run_all_strategies\<close> returns, a bottom-turn signal of a
  window \<open>period\<close> in 5, 10, 20, 60 is in the result exactly when: the bars have a Close
  column and MA60 is present with the last close above the last MA60 value; the MA series of
  the window has at least six defined values; and on its last three defined values
  \<open>a, b, c\<close> the relative change \<open>|(c - b) / b|\<close> (taken as 0 when \<open>b = 0\<close>) exceeds the
  threshold, the central difference \<open>(c - a) / 2\<close> that \<open>np.gradient\<close> gives for the
  middle point is negative and the last difference \<open>c - b\<close> is positive. The top turn is
  the mirror image with the last close below MA60. In particular no signal fires when the
  relative change is at or below the threshold.
\<close>

theorem ma_turning_point_fires:
  assumes run: "run_all_strategies thr data indicators symbol = Inr rs"
      and p: "period \<in> set ma_periods"
  shows "((\<exists>idx score. (symbol, turn_name period ''bottom'', idx, score) \<in> set rs) \<longleftrightarrow>
          (\<exists>close ma60 s. data ''Close'' = Some close \<and> indicators ''MA60'' = Some ma60 \<and>
             fgt (last close) (last ma60) \<and>
             indicators (ma_col period) = Some s \<and> 6 \<le> length (dropna s) \<and>
             (let v = dropna s; n = length v; a = v ! (n - 3); b = v ! (n - 2); c = v ! (n - 1)
              in thr < (if b \<noteq> 0 then \<bar>(c - b) / b\<bar> else 0) \<and> (c - a) / 2 < 0 \<and> 0 < c - b)))
       \<and> ((\<exists>idx score. (symbol, turn_name period ''top'', idx, score) \<in> set rs) \<longleftrightarrow>
          (\<exists>close ma60 s. data ''Close'' = Some close \<and> indicators ''MA60'' = Some ma60 \<and>
             flt (last close) (last ma60) \<and>
             indicators (ma_col period) = Some s \<and> 6 \<le> length (dropna s) \<and>
             (let v = dropna s; n = length v; a = v ! (n - 3); b = v ! (n - 2); c = v ! (n - 1)
              in thr < (if b \<noteq> 0 then \<bar>(c - b) / b\<bar> else 0) \<and> 0 < (c - a) / 2 \<and> c - b < 0)))"
proof -
  have b: "6 \<le> length (dropna s) \<Longrightarrow>
        fst (detect_ma_turning_point thr (dropna s) ''bottom'') =
        (let v = dropna s; n = length v; a = v ! (n - 3); b = v ! (n - 2); c = v ! (n - 1)
         in thr < (if b \<noteq> 0 then \<bar>(c - b) / b\<bar> else 0) \<and> (c - a) / 2 < 0 \<and> 0 < c - b)" for s
    by (simp add: turning_point_bottom Let_def)
  have t: "6 \<le> length (dropna s) \<Longrightarrow>
        fst (detect_ma_turning_point thr (dropna s) ''top'') =
        (let v = dropna s; n = length v; a = v ! (n - 3); b = v ! (n - 2); c = v ! (n - 1)
         in thr < (if b \<noteq> 0 then \<bar>(c - b) / b\<bar> else 0) \<and> 0 < (c - a) / 2 \<and> c - b < 0)" for s
    by (simp add: turning_point_top Let_def)
  show ?thesis
    using run_all_turn_mem[OF run p, of "''bottom''"] run_all_turn_mem[OF run p, of "''top''"]
    by (simp add: b t cong: conj_cong)
qed

text \<open>
  The theorem at a concrete input: MA5 ends in 12, 9, 11 (a fall from 12 to 11 over two
  steps, a rise of 2 at the last step), the last close 12 is above MA60 = 5.
\<close>

theorem ma_turning_point_fires_witness:
  "run_all_strategies 0.005 [''Close'' \<mapsto> [Some 12]]
     [''MA5'' \<mapsto> map Some [10, 10, 10, 12, 9, 11], ''MA60'' \<mapsto> [Some 5]] ''s''
     = Inr [(''s'', ''ma5_bottom_turn'', 5, 0.6)] \<and>
   (5::nat) \<in> set ma_periods \<and>
   (\<exists>close ma60 s. [''Close'' \<mapsto> [Some (12::real)]] ''Close'' = Some close \<and>
       [''MA5'' \<mapsto> map Some [10, 10, 10, 12, 9, 11], ''MA60'' \<mapsto> [Some 5]] ''MA60'' = Some ma60 \<and>
       fgt (last close) (last ma60) \<and>
       [''MA5'' \<mapsto> map Some [10, 10, 10, 12, 9, 11], ''MA60'' \<mapsto> [Some 5]] (ma_col 5) = Some s \<and>
       6 \<le> length (dropna s) \<and>
       (let v = dropna s; n = length v; a = v ! (n - 3); b = v ! (n - 2); c = v ! (n - 1)
        in 0.005 < (if b \<noteq> 0 then \<bar>(c - b) / b\<bar> else 0) \<and> (c - a) / 2 < 0 \<and> 0 < c - b))"
proof -
  let ?D = "[''Close'' \<mapsto> [Some (12::real)]]"
  let ?I = "[''MA5'' \<mapsto> map Some [10, 10, 10, 12, 9, 11::real], ''MA60'' \<mapsto> [Some 5]]"
  have run: "run_all_strategies 0.005 ?D ?I ''s'' = Inr [(''s'', ''ma5_bottom_turn'', 5, 0.6)]"
    by (simp add: run_all_strategies_def main_trend_def iloc_last_def
      fgt_def flt_def detect_macd_signals_def detect_rsi_signals_def detect_ma_signals_def
      ma_periods_def ma_period_signals_def ma_col_vals dropna_def ma_direction_signals_def
      detect_ma_turning_point_def gradient3 Let_def turn_name_vals label_score_def label_map_def)
  have p: "(5::nat) \<in> set ma_periods" by (simp add: ma_periods_def)
  have "\<exists>idx score. (''s'', turn_name 5 ''bottom'', idx, score)
          \<in> set [(''s'', ''ma5_bottom_turn'', 5::int, 0.6::real)]"
    by (intro exI[of _ 5] exI[of _ "0.6"]) (simp add: turn_name_vals)
  with ma_turning_point_fires[OF run p] run p show ?thesis by blast
qed

text \<open>
  The condition of the specification is weaker than the one of the code: for MA5 ending in
  10, 9, 11 the first difference is negative and then positive, the trend is bullish and the
  relative change 2/9 is above 0.005, but the central difference (11 - 10) / 2 is positive
  and no signal fires.
\<close>

theorem ma_turning_point_counterexample:
  "spec_bottom_turn 0.005 [10, 10, 10, 10, 9, 11] 12 5 \<and>
   run_all_strategies 0.005 [''Close'' \<mapsto> [Some 12]]
     [''MA5'' \<mapsto> map Some [10, 10, 10, 10, 9, 11], ''MA60'' \<mapsto> [Some 5]] ''s'' = Inr []"
  by (simp add: spec_bottom_turn_def run_all_strategies_def main_trend_def iloc_last_def
      fgt_def flt_def detect_macd_signals_def detect_rsi_signals_def detect_ma_signals_def
      ma_periods_def ma_period_signals_def ma_col_vals dropna_def ma_direction_signals_def
      detect_ma_turning_point_def gradient3 Let_def)

subsection \<open>MACD crossover\<close>

lemma macd_signals_value:
  assumes "indicators ''MACD'' = Some macd" "indicators ''MACD_Signal'' = Some sig"
      and "3 \<le> length macd" "2 \<le> length sig"
      and "fsub (macd ! (length macd - 2)) (sig ! (length sig - 2)) = Some p"
      and "fsub (last macd) (last sig) = Some c"
  shows "detect_macd_signals indicators symbol =
     Inr (if p \<le> 0 \<and> 0 < c
          then [(symbol, ''macd_golden_cross'', int (length macd) - 1, 0.8)]
          else if 0 \<le> p \<and> c < 0
          then [(symbol, ''macd_death_cross'', int (length macd) - 1, 0.8)]
          else [])"
proof -
  have "sig \<noteq> []" "\<not> length sig < 2" "\<not> length macd < 3" using assms by auto
  then show ?thesis
    using assms
    by (simp add: detect_macd_signals_def iloc_last_def iloc_last2_def Let_def
        fle_def fgt_def fge_def flt_def label_score_def label_map_def)
qed

lemma filter_names_disjoint:
  assumes "\<And>sg. sg \<in> set xs \<Longrightarrow> signal_name sg \<notin> N"
  shows "filter (\<lambda>sg. signal_name sg \<in> N) xs = []"
  using assms by (simp add: filter_empty_conv)

lemma macd_signals_short:
  assumes "indicators ''MACD'' = None \<or> indicators ''MACD_Signal'' = None \<or>
           (\<exists>macd. indicators ''MACD'' = Some macd \<and> length macd < 3)"
  shows "detect_macd_signals indicators symbol = Inr []"
  using assms by (auto simp: detect_macd_signals_def split: option.splits)

lemma run_all_macd_part:
  assumes "data ''Close'' = Some close"
      and "main_trend close (indicators ''MA60'') = Inr trend"
      and ms: "detect_macd_signals indicators symbol = Inr ms"
  shows "\<exists>rs. run_all_strategies thr data indicators symbol = Inr rs \<and>
     filter (\<lambda>sg. signal_name sg \<in> {''macd_golden_cross'', ''macd_death_cross''}) rs = ms"
proof -
  let ?N = "{''macd_golden_cross'', ''macd_death_cross''}"
  obtain bull bear where tr: "trend = (bull, bear)" by (cases trend) auto
  let ?ma = "detect_ma_signals thr indicators bull bear symbol"
  let ?rsi = "detect_rsi_signals indicators symbol"
  have run: "run_all_strategies thr data indicators symbol = Inr (?ma @ ms @ ?rsi)"
    using assms(1,2) ms by (simp add: run_all_strategies_def tr)
  have f1: "filter (\<lambda>sg. signal_name sg \<in> ?N) ?ma = []"
    by (rule filter_names_disjoint) (use ma_signal_names in fastforce)
  have f3: "filter (\<lambda>sg. signal_name sg \<in> ?N) ?rsi = []"
    by (rule filter_names_disjoint) (use rsi_signal_names in fastforce)
  have f2: "filter (\<lambda>sg. signal_name sg \<in> ?N) ms = ms"
    using macd_signal_names[OF ms] by (simp add: filter_id_conv)
  show ?thesis
    unfolding run using f1 f2 f3 by (intro exI[of _ "?ma @ ms @ ?rsi"]) simp
qed

text \<open>
  C6 as the code has it. With a Close column and a trend computation that does not raise,
  \<open>run_all_strategies\<close> returns. For a MACD series of at least three bars and a signal
  series of at least two, where \<open>p\<close> and \<open>c\<close> are the differences MACD - Signal at the
  second-to-last and the last bar, the MACD cross signals in its result are exactly one
  \<open>macd_golden_cross\<close> at the last index when \<open>p \<le> 0 < c\<close>, exactly one
  \<open>macd_death_cross\<close> at the last index when \<open>c < 0 \<le> p\<close>, and none otherwise. When one of
  the two series is missing or the MACD series has fewer than three bars, the result
  holds no MACD cross signal, whatever the values.
\<close>

theorem macd_cross_last_two_bars:
  assumes "data ''Close'' = Some close"
      and "main_trend close (indicators ''MA60'') = Inr trend"
  shows "(\<forall>macd sig p c.
            indicators ''MACD'' = Some macd \<and> indicators ''MACD_Signal'' = Some sig \<and>
            3 \<le> length macd \<and> 2 \<le> length sig \<and>
            fsub (macd ! (length macd - 2)) (sig ! (length sig - 2)) = Some p \<and>
            fsub (last macd) (last sig) = Some c \<longrightarrow>
            (\<exists>rs. run_all_strategies thr data indicators symbol = Inr rs \<and>
               filter (\<lambda>sg. signal_name sg \<in> {''macd_golden_cross'', ''macd_death_cross''}) rs =
                 (if p \<le> 0 \<and> 0 < c
                  then [(symbol, ''macd_golden_cross'', int (length macd) - 1, 0.8)]
                  else if 0 \<le> p \<and> c < 0
                  then [(symbol, ''macd_death_cross'', int (length macd) - 1, 0.8)]
                  else []))) \<and>
         (indicators ''MACD'' = None \<or> indicators ''MACD_Signal'' = None \<or>
            (\<exists>macd. indicators ''MACD'' = Some macd \<and> length macd < 3) \<longrightarrow>
            (\<exists>rs. run_all_strategies thr data indicators symbol = Inr rs \<and>
               filter (\<lambda>sg. signal_name sg \<in> {''macd_golden_cross'', ''macd_death_cross''}) rs
                 = []))"
proof (intro conjI allI impI)
  fix macd sig p c
  assume a: "indicators ''MACD'' = Some macd \<and> indicators ''MACD_Signal'' = Some sig \<and>
            3 \<le> length macd \<and> 2 \<le> length sig \<and>
            fsub (macd ! (length macd - 2)) (sig ! (length sig - 2)) = Some p \<and>
            fsub (last macd) (last sig) = Some c"
  then have h: "indicators ''MACD'' = Some macd" "indicators ''MACD_Signal'' = Some sig"
      "3 \<le> length macd" "2 \<le> length sig"
      "fsub (macd ! (length macd - 2)) (sig ! (length sig - 2)) = Some p"
      "fsub (last macd) (last sig) = Some c"
    by simp_all
  have "detect_macd_signals indicators symbol =
     Inr (if p \<le> 0 \<and> 0 < c
          then [(symbol, ''macd_golden_cross'', int (length macd) - 1, 0.8)]
          else if 0 \<le> p \<and> c < 0
          then [(symbol, ''macd_death_cross'', int (length macd) - 1, 0.8)]
          else [])"
    by (rule macd_signals_value[OF h])
  from run_all_macd_part[where data = data and indicators = indicators and thr = thr,
      OF assms this]
  show "\<exists>rs. run_all_strategies thr data indicators symbol = Inr rs \<and>
               filter (\<lambda>sg. signal_name sg \<in> {''macd_golden_cross'', ''macd_death_cross''}) rs =
                 (if p \<le> 0 \<and> 0 < c
                  then [(symbol, ''macd_golden_cross'', int (length macd) - 1, 0.8)]
                  else if 0 \<le> p \<and> c < 0
                  then [(symbol, ''macd_death_cross'', int (length macd) - 1, 0.8)]
                  else [])" .
next
  assume "indicators ''MACD'' = None \<or> indicators ''MACD_Signal'' = None \<or>
            (\<exists>macd. indicators ''MACD'' = Some macd \<and> length macd < 3)"
  from run_all_macd_part[where data = data and indicators = indicators and thr = thr,
      OF assms macd_signals_short[OF this]]
  show "\<exists>rs. run_all_strategies thr data indicators symbol = Inr rs \<and>
               filter (\<lambda>sg. signal_name sg \<in> {''macd_golden_cross'', ''macd_death_cross''}) rs
                 = []" .
qed

text \<open>The theorem on three bars, for the transitions -0.1 to 0.1 and 0.1 to -0.1, and on
  two bars.\<close>

theorem macd_cross_last_two_bars_witness:
  "(\<exists>rs. run_all_strategies 0.005 [''Close'' \<mapsto> [Some 1, Some 1, Some 1]]
           [''MACD'' \<mapsto> [Some 0, Some (-0.1), Some 0.1],
            ''MACD_Signal'' \<mapsto> [Some 0, Some 0, Some 0]] ''s'' = Inr rs \<and>
         filter (\<lambda>sg. signal_name sg \<in> {''macd_golden_cross'', ''macd_death_cross''}) rs =
           [(''s'', ''macd_golden_cross'', 2, 0.8)]) \<and>
   (\<exists>rs. run_all_strategies 0.005 [''Close'' \<mapsto> [Some 1, Some 1, Some 1]]
           [''MACD'' \<mapsto> [Some 0, Some 0.1, Some (-0.1)],
            ''MACD_Signal'' \<mapsto> [Some 0, Some 0, Some 0]] ''s'' = Inr rs \<and>
         filter (\<lambda>sg. signal_name sg \<in> {''macd_golden_cross'', ''macd_death_cross''}) rs =
           [(''s'', ''macd_death_cross'', 2, 0.8)]) \<and>
   (\<exists>rs. run_all_strategies 0.005 [''Close'' \<mapsto> [Some 1, Some 1]]
           [''MACD'' \<mapsto> [Some (-0.1), Some 0.1],
            ''MACD_Signal'' \<mapsto> [Some 0, Some 0]] ''s'' = Inr rs \<and>
         filter (\<lambda>sg. signal_name sg \<in> {''macd_golden_cross'', ''macd_death_cross''}) rs =
           [])"
proof -
  let ?D = "[''Close'' \<mapsto> [Some (1::real), Some 1, Some 1]]"
  let ?sig = "[Some (0::real), Some 0, Some 0]"
  let ?up = "[Some 0, Some (-0.1), Some (0.1::real)]"
  let ?down = "[Some 0, Some 0.1, Some (-0.1::real)]"
  let ?D2 = "[''Close'' \<mapsto> [Some (1::real), Some 1]]"
  let ?I2 = "[''MACD'' \<mapsto> [Some (-0.1), Some (0.1::real)],
              ''MACD_Signal'' \<mapsto> [Some 0, Some 0]]"
  note up = macd_cross_last_two_bars[of ?D "[Some 1, Some 1, Some 1]"
        "[''MACD'' \<mapsto> ?up, ''MACD_Signal'' \<mapsto> ?sig]" "(False, False)" "0.005" "''s''"]
  note down = macd_cross_last_two_bars[of ?D "[Some 1, Some 1, Some 1]"
        "[''MACD'' \<mapsto> ?down, ''MACD_Signal'' \<mapsto> ?sig]" "(False, False)" "0.005" "''s''"]
  note short = macd_cross_last_two_bars[of ?D2 "[Some 1, Some 1]" ?I2 "(False, False)"
        "0.005" "''s''"]
  have g: "\<exists>rs. run_all_strategies 0.005 ?D
             [''MACD'' \<mapsto> ?up, ''MACD_Signal'' \<mapsto> ?sig] ''s'' = Inr rs \<and>
         filter (\<lambda>sg. signal_name sg \<in> {''macd_golden_cross'', ''macd_death_cross''}) rs =
           [(''s'', ''macd_golden_cross'', 2, 0.8)]"
    using up[THEN conjunct1, rule_format, of ?up ?sig "-0.1" "0.1"]
    by (simp add: main_trend_def fsub_def)
  have d: "\<exists>rs. run_all_strategies 0.005 ?D
             [''MACD'' \<mapsto> ?down, ''MACD_Signal'' \<mapsto> ?sig] ''s'' = Inr rs \<and>
         filter (\<lambda>sg. signal_name sg \<in> {''macd_golden_cross'', ''macd_death_cross''}) rs =
           [(''s'', ''macd_death_cross'', 2, 0.8)]"
    using down[THEN conjunct1, rule_format, of ?down ?sig "0.1" "-0.1"]
    by (simp add: main_trend_def fsub_def)
  have n: "\<exists>rs. run_all_strategies 0.005 ?D2 ?I2 ''s'' = Inr rs \<and>
         filter (\<lambda>sg. signal_name sg \<in> {''macd_golden_cross'', ''macd_death_cross''}) rs = []"
    using short[THEN conjunct2] by (simp add: main_trend_def)
  from g d n show ?thesis by blast
qed

text \<open>
  On a series of exactly two bars the guard \<open>len(macd) < 3\<close> returns before the
  comparison: the transition -0.1 to 0.1 yields no signal at all.
\<close>

theorem macd_cross_counterexample:
  "detect_macd_signals [''MACD'' \<mapsto> [Some (-0.1), Some 0.1],
                        ''MACD_Signal'' \<mapsto> [Some 0, Some 0]] ''s'' = Inr [] \<and>
   run_all_strategies 0.005 [''Close'' \<mapsto> [Some 10, Some 10]]
     [''MACD'' \<mapsto> [Some (-0.1), Some 0.1], ''MACD_Signal'' \<mapsto> [Some 0, Some 0]] ''s'' = Inr []"
  by (simp add: run_all_strategies_def main_trend_def detect_macd_signals_def
      detect_rsi_signals_def detect_ma_signals_def ma_periods_def ma_period_signals_def
      ma_col_vals)

subsection \<open>Moving-average alignment\<close>

lemma run_all_no_alignment:
  assumes "run_all_strategies thr data indicators symbol = Inr rs" "sg \<in> set rs"
  shows "signal_name sg \<notin> {''ma_multi_bull'', ''ma_multi_bear''}"
proof -
  from run_all_strategies_Inr[OF assms(1)] assms(2)
  obtain bull bear ms where ms: "detect_macd_signals indicators symbol = Inr ms"
    and "sg \<in> set (detect_ma_signals thr indicators bull bear symbol) \<or> sg \<in> set ms \<or>
         sg \<in> set (detect_rsi_signals indicators symbol)"
    by auto
  then show ?thesis
    using ma_signal_names[of sg thr indicators bull bear symbol]
      macd_signal_names[OF ms, of sg] rsi_signal_names[of sg indicators symbol]
    by auto
qed

lemma detect_ma_alignment_value:
  assumes "indicators ''MA5'' = Some ma5" "indicators ''MA10'' = Some ma10"
      and "indicators ''MA20'' = Some ma20"
      and "ma5 \<noteq> []" "ma10 \<noteq> []" "ma20 \<noteq> []"
  shows "detect_ma_alignment indicators =
     Inr (if fgt (last ma5) (last ma10) \<and> fgt (last ma10) (last ma20)
          then (True, ''ma_multi_bull'', int (length ma5) - 1)
          else if flt (last ma5) (last ma10) \<and> flt (last ma10) (last ma20)
          then (True, ''ma_multi_bear'', int (length ma5) - 1)
          else (False, '''', -1))"
  using assms
  by (simp add: detect_ma_alignment_def alignment_if_def iloc_last_def)

text \<open>
  C7. \<open>detect_ma_alignment\<close> implements the alignment rule and \<open>label_map\<close> holds the
  labels \<open>ma_multi_bull\<close> and \<open>ma_multi_bear\<close>, but \<open>run_all_strategies\<close> does not run
  this detector. On three bars with MA5 > MA10 > MA20 at the last bar,
  \<open>detect_ma_alignment\<close> reports \<open>ma_multi_bull\<close> at the last index, and the result list of
  \<open>run_all_strategies\<close> is empty where the alignment signal is expected.
\<close>

theorem ma_alignment_not_run:
  "detect_ma_alignment
     [''MA5'' \<mapsto> [Some 9, Some 10, Some 11], ''MA10'' \<mapsto> [Some 8, Some 9, Some 10],
      ''MA20'' \<mapsto> [Some 7, Some 8, Some 9]]
     = Inr (True, ''ma_multi_bull'', 2) \<and>
   run_all_strategies 0.005 [''Close'' \<mapsto> [Some 10, Some 11, Some 12]]
     [''MA5'' \<mapsto> [Some 9, Some 10, Some 11], ''MA10'' \<mapsto> [Some 8, Some 9, Some 10],
      ''MA20'' \<mapsto> [Some 7, Some 8, Some 9]] ''s'' = Inr []"
  by (simp add: detect_ma_alignment_def alignment_if_def iloc_last_def fgt_def
      run_all_strategies_def main_trend_def detect_macd_signals_def
      detect_rsi_signals_def detect_ma_signals_def ma_periods_def ma_period_signals_def
      ma_col_vals dropna_def)

section \<open>Properties of the MyQuant fallback\<close>

lemma fold_update_lookup:
  assumes "map_of (fold (\<lambda>x r. case f x of None \<Rightarrow> r | Some (k, v) \<Rightarrow> AList.update k v r) xs r0) k
             = Some v"
  shows "map_of r0 k = Some v \<or> (\<exists>x \<in> set xs. f x = Some (k, v))"
  using assms
proof (induction xs arbitrary: r0)
  case Nil
  then show ?case by simp
next
  case (Cons x xs)
  show ?case
  proof (cases "f x")
    case None
    with Cons show ?thesis by auto
  next
    case (Some kv)
    obtain k' v' where kv: "kv = (k', v')" by (cases kv) auto
    from Cons.prems Some kv
    have "map_of (AList.update k' v' r0) k = Some v \<or> (\<exists>x \<in> set xs. f x = Some (k, v))"
      using Cons.IH[of "AList.update k' v' r0"] by simp
    then show ?thesis
      using Some kv by (auto simp: update_conv' split: if_splits)
  qed
qed

lemma convert_symbols_code_map_aux:
  assumes "\<And>s c. map_of cm s = Some c \<Longrightarrow> gm_symbol_of c = Some s"
      and "fold (\<lambda>symbol (gm_symbols, code_map).
             let clean_code = clean_code_of symbol
             in case gm_symbol_of clean_code of
                  None \<Rightarrow> (gm_symbols, code_map)
                | Some gm_symbol \<Rightarrow>
                    (gm_symbols @ [gm_symbol], AList.update gm_symbol clean_code code_map))
          symbols (gs, cm) = (gs', cm')"
      and "map_of cm' s = Some c"
  shows "gm_symbol_of c = Some s"
  using assms
proof (induction symbols arbitrary: gs cm)
  case Nil
  then show ?case by simp
next
  case (Cons x xs)
  show ?case
  proof (cases "gm_symbol_of (clean_code_of x)")
    case None
    with Cons.prems show ?thesis
      by (intro Cons.IH[of cm gs]) (auto simp: Let_def)
  next
    case (Some g)
    have inv: "\<And>s c. map_of (AList.update g (clean_code_of x) cm) s = Some c
                 \<Longrightarrow> gm_symbol_of c = Some s"
      using Cons.prems(1) Some by (auto simp: update_conv' split: if_splits)
    from Cons.prems(2,3) Some show ?thesis
      by (intro Cons.IH[of "AList.update g (clean_code_of x) cm" "gs @ [g]", OF inv])
         (auto simp: Let_def)
  qed
qed

lemma convert_symbols_code_map:
  assumes "convert_symbols symbols = (gs, cm)" "map_of cm s = Some c"
  shows "gm_symbol_of c = Some s"
  using convert_symbols_code_map_aux[of "[]" symbols "[]" gs cm s c] assms
  by (simp add: convert_symbols_def)

lemma myquant_entry:
  assumes "map_of (get_realtime_data_from_myquant c e symbols) code = Some q"
  shows "\<exists>gm_symbol. gm_symbol_of code = Some gm_symbol \<and>
           change_pct q = change_pct_of e gm_symbol (price q) \<and>
           time_str q = now_hms e"
proof -
  obtain gs cm where cs: "convert_symbols symbols = (gs, cm)"
    by (cases "convert_symbols symbols") auto
  from assms obtain ticks where
    m: "map_of (fold (\<lambda>data result. case tick_entry e cm data of None \<Rightarrow> result
                       | Some (code, q) \<Rightarrow> AList.update code q result) ticks []) code = Some q"
    by (auto simp: get_realtime_data_from_myquant_def cs split: if_splits sum.splits)
  from fold_update_lookup[OF m] obtain data where d: "tick_entry e cm data = Some (code, q)"
    by auto
  then obtain s where s: "map_of cm s = Some code"
    and q: "change_pct q = change_pct_of e s (price q)" "time_str q = now_hms e"
    by (auto simp: tick_entry_def Let_def split: option.splits if_splits)
  from convert_symbols_code_map[OF cs s] q show ?thesis by blast
qed

lemma change_pct_of_spec:
  "change_pct_of e s p =
     (case spec_baseline_close e s of
        Some b \<Rightarrow> if b > 0 \<and> p > 0
                  then py_round2 (float_mul (float_div (float_sub p b) b) 100) else 0
      | None \<Rightarrow> 0)"
  by (auto simp: change_pct_of_def spec_baseline_close_def pct_from_close_def
      split: sum.splits list.splits)

lemma myquant_keys:
  assumes "gm_symbol_of code = None"
  shows "map_of (get_realtime_data_from_myquant c e symbols) code = None"
proof (cases "map_of (get_realtime_data_from_myquant c e symbols) code")
  case None
  then show ?thesis .
next
  case (Some q)
  from myquant_entry[OF Some] assms show ?thesis by auto
qed

lemmas myquant_eval =
  get_realtime_data_from_myquant_def is_connected_def init_client_def convert_symbols_def
  clean_code_of_def gm_symbol_of_def isdigit_def startswith_def tick_entry_def
  change_pct_of_def pct_from_close_def bar_close_def turnover_of_def py_round2_def Let_def
  float_sub_def float_div_def float_mul_def fl_def ulp_def ulp_up.simps ulp_down.simps
  round_half_even_def

text \<open>
  Three values of the arithmetic: 15 against a close of 10 is 50 percent; 183 against 160
  is the double next to 14.37, since the product computed in doubles lies just below the
  tie 14.375; a volume of 50000 gives the double next to 0.01.
\<close>

lemma pct_from_close_values:
  "pct_from_close 15 10 = 50"
  "pct_from_close 183 160 = 8089590830664253 / 562949953421312"
  "turnover_of 50000 = 5764607523034235 / 576460752303423488"
  by (simp_all add: myquant_eval)

text \<open>
  C8 as the code has it. Every entry of the fallback's result belongs to a code with an
  exchange prefix, and its change-percent is computed from the current price \<open>p\<close> and the
  baseline close \<open>b\<close> (yesterday's close from the dated query, or, when that query returns
  no bar, the second-most-recent close of the last three sessions) as
  \<^verbatim>\<open>round((p - b) / b * 100, 2)\<close> in double-precision arithmetic, provided both the
  baseline close and the current price are positive; it is 0 when no baseline close is
  obtained (a query raises, or fewer than two sessions come back), when the baseline close
  is not positive, and when the current price is not positive.
\<close>

theorem myquant_change_pct:
  assumes "map_of (get_realtime_data_from_myquant c e symbols) code = Some q"
  shows "\<exists>gm_symbol. gm_symbol_of code = Some gm_symbol \<and>
           change_pct q =
             (case spec_baseline_close e gm_symbol of
                Some b \<Rightarrow> if b > 0 \<and> price q > 0
                          then py_round2 (float_mul (float_div (float_sub (price q) b) b) 100)
                          else 0
              | None \<Rightarrow> 0)"
  using myquant_entry[OF assms] by (auto simp: change_pct_of_spec)

text \<open>The theorem for a tick at 183 against yesterday's close 160.\<close>

theorem myquant_change_pct_witness:
  "map_of (get_realtime_data_from_myquant (init_client\<lparr>connected := True\<rparr>)
       \<lparr>MYQUANT_AVAILABLE = True, AKSHARE_AVAILABLE = False,
        stock_zh_a_spot_em = Inl ApiError, stock_zh_a_spot_gs = Inl ApiError,
        gm_current = (\<lambda>syms. Inr [\<lparr>tick_symbol = Some ''SHSE.600000'',
                                      tick_price = Some 183, tick_cum_volume = Some 0\<rparr>]),
        gm_history = (\<lambda>s. Inr [Some 160]), gm_history_n = (\<lambda>s. Inr []),
        now_hms = ''09:30:00''\<rparr>
       [''600000'']) ''600000'' =
     Some \<lparr>price = 183, change_pct = 8089590830664253 / 562949953421312,
           turnover_rate = 0, time_str = ''09:30:00'',
           source_type = None, data_source = None\<rparr> \<and>
   gm_symbol_of ''600000'' = Some ''SHSE.600000'' \<and>
   spec_baseline_close
       \<lparr>MYQUANT_AVAILABLE = True, AKSHARE_AVAILABLE = False,
        stock_zh_a_spot_em = Inl ApiError, stock_zh_a_spot_gs = Inl ApiError,
        gm_current = (\<lambda>syms. Inr [\<lparr>tick_symbol = Some ''SHSE.600000'',
                                      tick_price = Some 183, tick_cum_volume = Some 0\<rparr>]),
        gm_history = (\<lambda>s. Inr [Some 160]), gm_history_n = (\<lambda>s. Inr []),
        now_hms = ''09:30:00''\<rparr>
       ''SHSE.600000'' = Some 160 \<and>
   py_round2 (float_mul (float_div (float_sub 183 160) 160) 100) =
     8089590830664253 / 562949953421312"
proof -
  let ?E = "\<lparr>MYQUANT_AVAILABLE = True, AKSHARE_AVAILABLE = False,
        stock_zh_a_spot_em = Inl ApiError, stock_zh_a_spot_gs = Inl ApiError,
        gm_current = (\<lambda>syms. Inr [\<lparr>tick_symbol = Some ''SHSE.600000'',
                                      tick_price = Some 183, tick_cum_volume = Some 0\<rparr>]),
        gm_history = (\<lambda>s. Inr [Some 160]), gm_history_n = (\<lambda>s. Inr []),
        now_hms = ''09:30:00''\<rparr>"
  let ?Q = "\<lparr>price = 183, change_pct = 8089590830664253 / 562949953421312,
           turnover_rate = 0, time_str = ''09:30:00'',
           source_type = None, data_source = None\<rparr>"
  have h: "map_of (get_realtime_data_from_myquant (init_client\<lparr>connected := True\<rparr>) ?E [''600000''])
             ''600000'' = Some ?Q"
    by (simp add: myquant_eval)
  have g: "gm_symbol_of ''600000'' = Some ''SHSE.600000''"
    by (simp add: gm_symbol_of_def isdigit_def startswith_def)
  have b: "spec_baseline_close ?E ''SHSE.600000'' = Some 160"
    by (simp add: spec_baseline_close_def bar_close_def)
  from myquant_change_pct[OF h] g b
  have "py_round2 (float_mul (float_div (float_sub 183 160) 160) 100) =
          8089590830664253 / 562949953421312"
    by simp
  with h g b show ?thesis by simp
qed

text \<open>
  The change-percent is not the plain ratio: with a baseline close of 10, a tick without a
  positive price is reported with 0 where the ratio is -1, and a tick at 15 is reported
  with 50 where the ratio is 1/2.
\<close>

theorem myquant_change_pct_counterexample:
  "map (\<lambda>(code, q). (code, price q, change_pct q))
     (get_realtime_data_from_myquant (init_client\<lparr>connected := True\<rparr>)
       \<lparr>MYQUANT_AVAILABLE = True, AKSHARE_AVAILABLE = False,
        stock_zh_a_spot_em = Inl ApiError, stock_zh_a_spot_gs = Inl ApiError,
        gm_current = (\<lambda>syms. Inr [\<lparr>tick_symbol = Some ''SHSE.600000'',
                                      tick_price = Some 0, tick_cum_volume = Some 0\<rparr>]),
        gm_history = (\<lambda>s. Inr [Some 10]), gm_history_n = (\<lambda>s. Inr []),
        now_hms = ''09:30:00''\<rparr>
       [''600000'']) = [(''600000'', 0, 0)] \<and>
   spec_baseline_close
       \<lparr>MYQUANT_AVAILABLE = True, AKSHARE_AVAILABLE = False,
        stock_zh_a_spot_em = Inl ApiError, stock_zh_a_spot_gs = Inl ApiError,
        gm_current = (\<lambda>syms. Inr [\<lparr>tick_symbol = Some ''SHSE.600000'',
                                      tick_price = Some 0, tick_cum_volume = Some 0\<rparr>]),
        gm_history = (\<lambda>s. Inr [Some 10]), gm_history_n = (\<lambda>s. Inr []),
        now_hms = ''09:30:00''\<rparr> ''SHSE.600000'' = Some 10 \<and>
   spec_change_ratio 0 10 = -1 \<and>
   map (\<lambda>(code, q). (code, price q, change_pct q))
     (get_realtime_data_from_myquant (init_client\<lparr>connected := True\<rparr>)
       \<lparr>MYQUANT_AVAILABLE = True, AKSHARE_AVAILABLE = False,
        stock_zh_a_spot_em = Inl ApiError, stock_zh_a_spot_gs = Inl ApiError,
        gm_current = (\<lambda>syms. Inr [\<lparr>tick_symbol = Some ''SHSE.600000'',
                                      tick_price = Some 15, tick_cum_volume = Some 0\<rparr>]),
        gm_history = (\<lambda>s. Inr [Some 10]), gm_history_n = (\<lambda>s. Inr []),
        now_hms = ''09:30:00''\<rparr>
       [''600000'']) = [(''600000'', 15, 50)] \<and>
   spec_change_ratio 15 10 = 1 / 2"
  by (simp add: myquant_eval spec_baseline_close_def spec_change_ratio_def)

subsection \<open>Exchange prefixes\<close>

lemma convert_symbols_Nil: "convert_symbols [] = ([], [])"
  by (simp add: convert_symbols_def)

lemma convert_symbols_snoc:
  "convert_symbols (xs @ [x]) =
     (case gm_symbol_of (clean_code_of x) of
        None \<Rightarrow> convert_symbols xs
      | Some g \<Rightarrow> (fst (convert_symbols xs) @ [g],
                   AList.update g (clean_code_of x) (snd (convert_symbols xs))))"
  by (simp add: convert_symbols_def Let_def case_prod_beta split: option.splits)

lemma gm_symbol_of_Some:
  assumes "gm_symbol_of code = Some g"
  shows "code = drop 5 g \<and> (g = ''SHSE.'' @ code \<or> g = ''SZSE.'' @ code)"
  using assms by (auto simp: gm_symbol_of_def split: if_splits)

lemma gm_symbols_mem:
  "g \<in> set (fst (convert_symbols symbols)) \<longleftrightarrow>
     (\<exists>s \<in> set symbols. gm_symbol_of (clean_code_of s) = Some g)"
proof (induction symbols rule: rev_induct)
  case Nil
  then show ?case by (simp add: convert_symbols_Nil)
next
  case (snoc x xs)
  then show ?case
    by (cases "gm_symbol_of (clean_code_of x)") (auto simp: convert_symbols_snoc)
qed

lemma code_map_lookup:
  "map_of (snd (convert_symbols symbols)) g =
     (if \<exists>s \<in> set symbols. gm_symbol_of (clean_code_of s) = Some g
      then Some (drop 5 g) else None)"
proof (induction symbols rule: rev_induct)
  case Nil
  then show ?case by (simp add: convert_symbols_Nil)
next
  case (snoc x xs)
  show ?case
  proof (cases "gm_symbol_of (clean_code_of x)")
    case None
    with snoc show ?thesis by (auto simp: convert_symbols_snoc)
  next
    case (Some g')
    from gm_symbol_of_Some[OF Some] have "clean_code_of x = drop 5 g'" by simp
    with snoc Some show ?thesis
      by (auto simp: convert_symbols_snoc update_conv')
  qed
qed

lemma fold_update_has_key:
  "map_of (fold (\<lambda>x r. case f x of None \<Rightarrow> r | Some (k, v) \<Rightarrow> AList.update k v r) xs r0) k
       \<noteq> None \<longleftrightarrow>
     map_of r0 k \<noteq> None \<or> (\<exists>x \<in> set xs. \<exists>v. f x = Some (k, v))"
proof (induction xs arbitrary: r0)
  case Nil
  then show ?case by simp
next
  case (Cons x xs)
  show ?case
  proof (cases "f x")
    case None
    with Cons show ?thesis by simp
  next
    case (Some kv)
    obtain k' v' where kv: "kv = (k', v')" by (cases kv) auto
    show ?thesis
      using Cons.IH[of "AList.update k' v' r0"] Some kv
      by (auto simp: update_conv')
  qed
qed

lemma myquant_serves_tick:
  assumes con: "is_connected c e"
      and g: "g \<in> set (fst (convert_symbols symbols))"
      and cur: "gm_current e (fst (convert_symbols symbols)) = Inr ticks"
      and d: "d \<in> set ticks" "tick_symbol d = Some g"
  shows "map_of (get_realtime_data_from_myquant c e symbols) (drop 5 g) \<noteq> None"
proof -
  obtain gs cm where cs: "convert_symbols symbols = (gs, cm)"
    by (cases "convert_symbols symbols") auto
  from g obtain s where s: "s \<in> set symbols" "gm_symbol_of (clean_code_of s) = Some g"
    unfolding gm_symbols_mem by blast
  have cm: "map_of cm g = Some (drop 5 g)"
    using code_map_lookup[of symbols g] s cs by auto
  have len: "drop 5 g \<noteq> []"
    using gm_symbol_of_Some[OF s(2)] s(2) by (auto simp: gm_symbol_of_def split: if_splits)
  have te: "\<exists>v. tick_entry e cm d = Some (drop 5 g, v)"
    using cm len d(2) by (simp add: tick_entry_def Let_def)
  have ne: "symbols \<noteq> []" "gs \<noteq> []" "ticks \<noteq> []"
    using s(1) g d(1) cs by auto
  have "get_realtime_data_from_myquant c e symbols =
          fold (\<lambda>data result. case tick_entry e cm data of None \<Rightarrow> result
                  | Some (code, q) \<Rightarrow> AList.update code q result) ticks []"
    using con ne cur cs by (simp add: get_realtime_data_from_myquant_def)
  then show ?thesis
    using fold_update_has_key[of "tick_entry e cm" ticks "[]" "drop 5 g"] te d(1) by auto
qed

text \<open>
  C10. In the symbol normalization of the fallback, a six-digit code that starts with 12
  gets the Shanghai prefix, since the Shanghai test comes first: for every symbol of the
  batch with such a code, \<open>SHSE.code\<close> is among the symbols sent to the vendor, \<open>SZSE.code\<close>
  is not, the code map leads from \<open>SHSE.code\<close> back to the code, and a tick that the
  vendor returns for \<open>SHSE.code\<close> gives the code an entry in the result. A six-digit code
  whose first two digits are in neither prefix list is passed over: neither prefixed
  symbol is sent to the vendor and the code has no entry in the result, whatever the batch
  and the vendor's answer (the function is total: no error).
\<close>

theorem myquant_symbol_prefix:
  "(length code = 6 \<and> isdigit code \<and> take 2 code = ''12'' \<longrightarrow>
      gm_symbol_of code = Some (''SHSE.'' @ code) \<and>
      ''SZSE.'' @ code \<notin> set (fst (convert_symbols symbols)) \<and>
      ((\<exists>s \<in> set symbols. clean_code_of s = code) \<longrightarrow>
         ''SHSE.'' @ code \<in> set (fst (convert_symbols symbols)) \<and>
         map_of (snd (convert_symbols symbols)) (''SHSE.'' @ code) = Some code \<and>
         (\<forall>ticks. is_connected c e \<and>
                  gm_current e (fst (convert_symbols symbols)) = Inr ticks \<and>
                  (\<exists>d \<in> set ticks. tick_symbol d = Some (''SHSE.'' @ code)) \<longrightarrow>
                  map_of (get_realtime_data_from_myquant c e symbols) code \<noteq> None))) \<and>
   (length code = 6 \<and> isdigit code \<and>
      \<not> startswith code [''60'', ''68'', ''11'', ''12'', ''13''] \<and>
      \<not> startswith code [''00'', ''30'', ''12'', ''15'', ''16'', ''18''] \<longrightarrow>
      gm_symbol_of code = None \<and>
      ''SHSE.'' @ code \<notin> set (fst (convert_symbols symbols)) \<and>
      ''SZSE.'' @ code \<notin> set (fst (convert_symbols symbols)) \<and>
      map_of (get_realtime_data_from_myquant c e symbols) code = None)"
proof -
  let ?gs = "fst (convert_symbols symbols)"
  have code_of: "clean_code_of s = code"
    if "gm_symbol_of (clean_code_of s) = Some (p @ code)" "length p = 5" for s p
    using gm_symbol_of_Some[OF that(1)] that(2) by simp
  have none: "gm_symbol_of code = None \<and> ''SHSE.'' @ code \<notin> set ?gs \<and>
              ''SZSE.'' @ code \<notin> set ?gs \<and>
              map_of (get_realtime_data_from_myquant c e symbols) code = None"
    if n: "\<not> startswith code [''60'', ''68'', ''11'', ''12'', ''13'']"
          "\<not> startswith code [''00'', ''30'', ''12'', ''15'', ''16'', ''18'']"
  proof -
    have gn: "gm_symbol_of code = None" using n by (simp add: gm_symbol_of_def)
    have "p @ code \<notin> set ?gs" if "length p = 5" for p
    proof
      assume "p @ code \<in> set ?gs"
      then obtain s where "gm_symbol_of (clean_code_of s) = Some (p @ code)"
        unfolding gm_symbols_mem by blast
      with code_of[OF this that] gn show False by simp
    qed
    from this[of "''SHSE.''"] this[of "''SZSE.''"] gn myquant_keys[OF gn, of c e symbols]
    show ?thesis by simp
  qed
  have sh: "gm_symbol_of code = Some (''SHSE.'' @ code)"
    if "length code = 6" "isdigit code" "take 2 code = ''12''"
    using that by (simp add: gm_symbol_of_def startswith_def numeral_2_eq_2)
  have nosz: "''SZSE.'' @ code \<notin> set ?gs"
    if "length code = 6" "isdigit code" "take 2 code = ''12''"
  proof
    assume "''SZSE.'' @ code \<in> set ?gs"
    then obtain s where s: "gm_symbol_of (clean_code_of s) = Some (''SZSE.'' @ code)"
      unfolding gm_symbols_mem by blast
    from code_of[OF s] sh[OF that] s show False by simp
  qed
  have served: "''SHSE.'' @ code \<in> set ?gs \<and>
         map_of (snd (convert_symbols symbols)) (''SHSE.'' @ code) = Some code \<and>
         (\<forall>ticks. is_connected c e \<and> gm_current e ?gs = Inr ticks \<and>
                  (\<exists>d \<in> set ticks. tick_symbol d = Some (''SHSE.'' @ code)) \<longrightarrow>
                  map_of (get_realtime_data_from_myquant c e symbols) code \<noteq> None)"
    if g: "gm_symbol_of code = Some (''SHSE.'' @ code)"
      and s: "\<exists>s \<in> set symbols. clean_code_of s = code"
  proof -
    from g s have ex: "\<exists>s \<in> set symbols. gm_symbol_of (clean_code_of s) = Some (''SHSE.'' @ code)"
      by auto
    then have m: "''SHSE.'' @ code \<in> set ?gs" unfolding gm_symbols_mem .
    have cm: "map_of (snd (convert_symbols symbols)) (''SHSE.'' @ code) = Some code"
      using code_map_lookup[of symbols "''SHSE.'' @ code"] ex by simp
    have "map_of (get_realtime_data_from_myquant c e symbols) code \<noteq> None"
      if "is_connected c e" "gm_current e ?gs = Inr ticks"
         "\<exists>d \<in> set ticks. tick_symbol d = Some (''SHSE.'' @ code)" for ticks
      using myquant_serves_tick[OF that(1) m that(2)] that(3) by auto
    with m cm show ?thesis by blast
  qed
  from none sh nosz served show ?thesis by blast
qed

text \<open>A batch with the codes 123456 and 990000, and a tick for the first.\<close>

theorem myquant_symbol_prefix_witness:
  "length ''123456'' = 6 \<and> isdigit ''123456'' \<and> take 2 ''123456'' = ''12'' \<and>
   clean_code_of ''123456.SH'' = ''123456'' \<and>
   convert_symbols [''123456.SH'', ''990000''] =
     ([''SHSE.123456''], [(''SHSE.123456'', ''123456'')]) \<and>
   map_of (get_realtime_data_from_myquant (init_client\<lparr>connected := True\<rparr>)
       \<lparr>MYQUANT_AVAILABLE = True, AKSHARE_AVAILABLE = False,
        stock_zh_a_spot_em = Inl ApiError, stock_zh_a_spot_gs = Inl ApiError,
        gm_current = (\<lambda>syms. Inr [\<lparr>tick_symbol = Some ''SHSE.123456'',
                                      tick_price = Some 15, tick_cum_volume = Some 0\<rparr>]),
        gm_history = (\<lambda>s. Inr [Some 10]), gm_history_n = (\<lambda>s. Inr []),
        now_hms = ''09:30:00''\<rparr>
       [''123456.SH'', ''990000'']) ''123456'' \<noteq> None \<and>
   length ''990000'' = 6 \<and> isdigit ''990000'' \<and>
   \<not> startswith ''990000'' [''60'', ''68'', ''11'', ''12'', ''13''] \<and>
   \<not> startswith ''990000'' [''00'', ''30'', ''12'', ''15'', ''16'', ''18''] \<and>
   gm_symbol_of ''990000'' = None \<and>
   map_of (get_realtime_data_from_myquant (init_client\<lparr>connected := True\<rparr>)
       \<lparr>MYQUANT_AVAILABLE = True, AKSHARE_AVAILABLE = False,
        stock_zh_a_spot_em = Inl ApiError, stock_zh_a_spot_gs = Inl ApiError,
        gm_current = (\<lambda>syms. Inr [\<lparr>tick_symbol = Some ''SHSE.123456'',
                                      tick_price = Some 15, tick_cum_volume = Some 0\<rparr>]),
        gm_history = (\<lambda>s. Inr [Some 10]), gm_history_n = (\<lambda>s. Inr []),
        now_hms = ''09:30:00''\<rparr>
       [''123456.SH'', ''990000'']) ''990000'' = None"
proof -
  let ?E = "\<lparr>MYQUANT_AVAILABLE = True, AKSHARE_AVAILABLE = False,
        stock_zh_a_spot_em = Inl ApiError, stock_zh_a_spot_gs = Inl ApiError,
        gm_current = (\<lambda>syms. Inr [\<lparr>tick_symbol = Some ''SHSE.123456'',
                                      tick_price = Some 15, tick_cum_volume = Some 0\<rparr>]),
        gm_history = (\<lambda>s. Inr [Some 10]), gm_history_n = (\<lambda>s. Inr []),
        now_hms = ''09:30:00''\<rparr>"
  let ?C = "init_client\<lparr>connected := True\<rparr>"
  let ?syms = "[''123456.SH'', ''990000'']"
  have cs: "convert_symbols ?syms = ([''SHSE.123456''], [(''SHSE.123456'', ''123456'')])"
    by (simp add: convert_symbols_def clean_code_of_def gm_symbol_of_def isdigit_def
        startswith_def Let_def)
  have k: "clean_code_of ''123456.SH'' = ''123456''" by (simp add: clean_code_of_def)
  have a: "length ''123456'' = 6 \<and> isdigit ''123456'' \<and> take 2 ''123456'' = ''12''"
    by (simp add: isdigit_def)
  have b: "length ''990000'' = 6 \<and> isdigit ''990000'' \<and>
      \<not> startswith ''990000'' [''60'', ''68'', ''11'', ''12'', ''13''] \<and>
      \<not> startswith ''990000'' [''00'', ''30'', ''12'', ''15'', ''16'', ''18'']"
    by (simp add: isdigit_def startswith_def)
  have ex: "\<exists>s \<in> set ?syms. clean_code_of s = ''123456''" using k by simp
  have con: "is_connected ?C ?E" by (simp add: is_connected_def)
  have cur: "gm_current ?E (fst (convert_symbols ?syms)) =
               Inr [\<lparr>tick_symbol = Some ''SHSE.123456'', tick_price = Some 15,
                     tick_cum_volume = Some 0\<rparr>]"
    by simp
  note t1 = myquant_symbol_prefix[of "''123456''" ?syms ?C ?E]
  note t2 = myquant_symbol_prefix[of "''990000''" ?syms ?C ?E]
  have d: "\<exists>d \<in> set [\<lparr>tick_symbol = Some ''SHSE.123456'', tick_price = Some 15,
                           tick_cum_volume = Some (0::real)\<rparr>].
             tick_symbol d = Some (''SHSE.'' @ ''123456'')"
    by simp
  from t1 a ex con cur d
  have served: "map_of (get_realtime_data_from_myquant ?C ?E ?syms) ''123456'' \<noteq> None"
    by blast
  from t2 b have skipped: "gm_symbol_of ''990000'' = None"
    "map_of (get_realtime_data_from_myquant ?C ?E ?syms) ''990000'' = None"
    by blast+
  from a b k cs served skipped show ?thesis by simp
qed

section \<open>Properties of the quote service\<close>

lemma fold_update_distinct:
  assumes "distinct (map fst r0)"
  shows "distinct (map fst (fold (\<lambda>x r. case f x of None \<Rightarrow> r
                                   | Some (k, v) \<Rightarrow> AList.update k v r) xs r0))"
  using assms
proof (induction xs arbitrary: r0)
  case Nil
  then show ?case by simp
next
  case (Cons x xs)
  show ?case
  proof (cases "f x")
    case None
    with Cons show ?thesis by simp
  next
    case (Some kv)
    then show ?thesis
      using Cons.IH[of "AList.update (fst kv) (snd kv) r0"] Cons.prems
      by (simp add: distinct_update case_prod_beta)
  qed
qed

lemma myquant_distinct: "distinct (map fst (get_realtime_data_from_myquant c e symbols))"
  by (auto simp: get_realtime_data_from_myquant_def fold_update_distinct
      split: prod.splits sum.splits)

lemma akshare_distinct: "distinct (map fst (get_realtime_data_from_akshare e symbols))"
  by (auto simp: get_realtime_data_from_akshare_def fold_update_distinct split: option.splits)

lemma fetch_chain_eq:
  "fetch_chain c e need =
     (if AKSHARE_AVAILABLE e \<and> get_realtime_data_from_akshare e need \<noteq> []
      then (get_realtime_data_from_akshare e need, True, [AKShareCall need])
      else if is_connected c e
      then (get_realtime_data_from_myquant c e need, False,
            (if AKSHARE_AVAILABLE e then [AKShareCall need] else []) @ [MyQuantCall need])
      else ([], False, if AKSHARE_AVAILABLE e then [AKShareCall need] else []))"
  by (simp add: fetch_chain_def Let_def)

lemma fetch_chain_distinct: "distinct (map fst (fst (fetch_chain c e need)))"
  by (simp add: fetch_chain_eq myquant_distinct akshare_distinct)

lemma store_fetched_lookup:
  assumes "distinct (map fst fetched)"
      and "store_fetched ok t fetched (c, r) = (c', r')"
  shows "map_of (data_cache c') k =
           (case map_of fetched k of Some d \<Rightarrow> Some (tag_source ok d)
            | None \<Rightarrow> map_of (data_cache c) k)
       \<and> map_of (cache_time c') k =
           (case map_of fetched k of Some d \<Rightarrow> Some t | None \<Rightarrow> map_of (cache_time c) k)
       \<and> map_of r' k =
           (case map_of fetched k of Some d \<Rightarrow> Some (tag_source ok d) | None \<Rightarrow> map_of r k)
       \<and> cache_expiry c' = cache_expiry c \<and> connected c' = connected c"
  using assms
proof (induction fetched arbitrary: c r)
  case Nil
  then show ?case by (simp add: store_fetched_def)
next
  case (Cons x xs)
  obtain k0 d0 where x: "x = (k0, d0)" by (cases x) auto
  let ?c1 = "c\<lparr>data_cache := AList.update k0 (tag_source ok d0) (data_cache c),
                cache_time := AList.update k0 t (cache_time c)\<rparr>"
  let ?r1 = "AList.update k0 (tag_source ok d0) r"
  from Cons.prems(2) have step: "store_fetched ok t xs (?c1, ?r1) = (c', r')"
    by (simp add: store_fetched_def x tag_source_def Let_def)
  from Cons.prems(1) have d: "distinct (map fst xs)" and nk: "map_of xs k0 = None"
    by (auto simp: x map_of_eq_None_iff)
  from Cons.IH[OF d step] nk show ?case
    by (auto simp: x update_conv' split: option.splits)
qed

lemma check_cache_force:
  "fold (check_cache_step c True t) symbols (r, n) = (r, n @ symbols)"
  by (induction symbols arbitrary: n) (simp_all add: check_cache_step_def)

lemma check_cache_from_cache:
  assumes "fold (check_cache_step c force t) symbols (r, n) = (r', n')"
      and "\<And>k q. map_of r k = Some q \<Longrightarrow> map_of (data_cache c) k = Some q"
      and "map_of r' k = Some q"
  shows "map_of (data_cache c) k = Some q"
  using assms
proof (induction symbols arbitrary: r n)
  case Nil
  then show ?case by simp
next
  case (Cons x xs)
  obtain r1 n1 where step: "check_cache_step c force t x (r, n) = (r1, n1)"
    by (cases "check_cache_step c force t x (r, n)") auto
  have inv: "map_of r1 k' = Some q' \<Longrightarrow> map_of (data_cache c) k' = Some q'" for k' q'
    using step Cons.prems(2)
    by (auto simp: check_cache_step_def Let_def update_conv' split: if_splits option.splits)
  from Cons.prems(1) step have "fold (check_cache_step c force t) xs (r1, n1) = (r', n')"
    by simp
  from Cons.IH[OF this inv Cons.prems(3)] show ?case .
qed

lemma check_cache_True: "check_cache c True t symbols = ([], symbols)"
  using check_cache_force[where r = "[]" and n = "[]"] by (simp add: check_cache_def)

lemma check_cache_single:
  "check_cache c False t [s] =
     (case (map_of (data_cache c) (clean_code_of s), map_of (cache_time c) (clean_code_of s)) of
        (Some data, Some t0) \<Rightarrow>
          if t - t0 < cache_expiry c then ([(clean_code_of s, data)], []) else ([], [s])
      | _ \<Rightarrow> ([], [s]))"
  by (simp add: check_cache_def check_cache_step_def Let_def split: option.splits)

lemma get_realtime_data_fetch:
  assumes "symbols \<noteq> []" "check_cache c force t symbols = (r0, need)" "need \<noteq> []"
      and "fetch_chain c e need = (fetched, ok, calls)"
      and "get_realtime_data c e symbols force t = (c', r', calls')"
  shows "calls' = calls \<and> store_fetched ok t fetched (c, r0) = (c', r')"
  using assms by (simp add: get_realtime_data_def split: prod.splits)

lemma get_realtime_data_calls:
  "snd (snd (get_realtime_data c e symbols force t)) =
     (let need = snd (check_cache c force t symbols)
      in if symbols = [] \<or> need = [] then []
         else (if AKSHARE_AVAILABLE e then [AKShareCall need] else []) @
              (if (AKSHARE_AVAILABLE e \<longrightarrow> get_realtime_data_from_akshare e need = []) \<and>
                  is_connected c e
               then [MyQuantCall need] else []))"
  by (auto simp: get_realtime_data_def fetch_chain_eq Let_def split: prod.splits)

lemma myquant_clear_cache:
  "get_realtime_data_from_myquant (clear_cache c) e symbols =
   get_realtime_data_from_myquant c e symbols"
  by (simp add: get_realtime_data_from_myquant_def is_connected_def clear_cache_def)

lemma is_connected_clear_cache: "is_connected (clear_cache c) e = is_connected c e"
  by (simp add: is_connected_def clear_cache_def)

lemma fetch_chain_clear_cache: "fetch_chain (clear_cache c) e need = fetch_chain c e need"
  by (simp add: fetch_chain_eq myquant_clear_cache is_connected_clear_cache)

lemma store_fetched_result:
  "snd (store_fetched ok t fetched (c, r)) =
     fold (\<lambda>(code, data) r. AList.update code (tag_source ok data) r) fetched r"
proof (induction fetched arbitrary: c r)
  case Nil
  then show ?case by (simp add: store_fetched_def)
next
  case (Cons x xs)
  obtain k0 d0 where x: "x = (k0, d0)" by (cases x) auto
  show ?case
    using Cons.IH[of "c\<lparr>data_cache := AList.update k0 (tag_source ok d0) (data_cache c),
                cache_time := AList.update k0 t (cache_time c)\<rparr>"
                "AList.update k0 (tag_source ok d0) r"]
    by (simp add: store_fetched_def x tag_source_def Let_def)
qed

lemmas quotes_eval =
  get_realtime_data_def check_cache_def check_cache_step_def fetch_chain_def
  get_realtime_data_from_akshare_def
  ak_table_def ak_entry_def store_fetched_def tag_source_def Let_def

text \<open>
  C1. A call at time \<open>t1\<close> (for any batch) that returns the quote \<open>q\<close> for \<open>s\<close> and
  leaves the fetch-time of \<open>s\<close> at \<open>t1\<close> (it stored the quote), followed by a call for
  \<open>s\<close> without \<open>force_refresh\<close> at a time \<open>t2\<close> with \<open>t2 - t1 < 5\<close>, where 5 is the
  client's \<open>cache_expiry\<close>: the second call returns exactly the quote \<open>q\<close> for \<open>s\<close>,
  calls no provider, whatever the providers would answer, and leaves the client as it
  was.
\<close>

theorem cache_freshness:
  assumes first: "get_realtime_data c0 e1 symbols1 force1 t1 = (c1, r1, calls1)"
      and ret: "map_of r1 (clean_code_of s) = Some q"
      and stored: "map_of (cache_time c1) (clean_code_of s) = Some t1"
      and ttl: "cache_expiry c0 = 5" "t2 - t1 < 5"
  shows "get_realtime_data c1 e2 [s] False t2 = (c1, [(clean_code_of s, q)], [])"
proof -
  let ?k = "clean_code_of s"
  obtain r0 need where cc: "check_cache c0 force1 t1 symbols1 = (r0, need)"
    by (cases "check_cache c0 force1 t1 symbols1") auto
  have r0: "map_of r0 k = Some d \<Longrightarrow> map_of (data_cache c0) k = Some d" for k d
    using check_cache_from_cache[of c0 force1 t1 symbols1 "[]" "[]" r0 need k d] cc
    by (simp add: check_cache_def)
  have ne: "symbols1 \<noteq> []"
    using first ret by (auto simp: get_realtime_data_def)
  have c1: "map_of (data_cache c1) ?k = Some q \<and> cache_expiry c1 = 5"
  proof (cases "need = []")
    case True
    with first cc ne have "c1 = c0" "r1 = r0"
      by (auto simp: get_realtime_data_def)
    with r0 ret ttl show ?thesis by simp
  next
    case False
    obtain fetched ok calls where fc: "fetch_chain c0 e1 need = (fetched, ok, calls)"
      by (cases "fetch_chain c0 e1 need") auto
    have st: "store_fetched ok t1 fetched (c0, r0) = (c1, r1)"
      using get_realtime_data_fetch[OF ne cc False fc first] by simp
    have di: "distinct (map fst fetched)"
      using fetch_chain_distinct[of c0 e1 need] by (simp add: fc)
    note look = store_fetched_lookup[OF di st, of ?k]
    show ?thesis
    proof (cases "map_of fetched ?k")
      case None
      with look ret have "map_of r0 ?k = Some q"
        "map_of (data_cache c1) ?k = map_of (data_cache c0) ?k" by simp_all
      with r0[of ?k q] look ttl show ?thesis by simp
    next
      case (Some d)
      with look ret ttl show ?thesis by simp
    qed
  qed
  with stored ttl have "check_cache c1 False t2 [s] = ([(?k, q)], [])"
    by (simp add: check_cache_single)
  then show ?thesis
    by (simp add: get_realtime_data_def)
qed

text \<open>Two calls three seconds apart, the first one served by AKShare.\<close>

theorem cache_freshness_witness:
  "get_realtime_data init_client
     \<lparr>MYQUANT_AVAILABLE = True, AKSHARE_AVAILABLE = True,
       stock_zh_a_spot_em = Inr (Some [\<lparr>ak_code = ''600000'', ak_latest_price = Some 10, ak_change_pct = Some 2, ak_turnover_rate = Some 1\<rparr>]), stock_zh_a_spot_gs = Inl ApiError,
       gm_current = (\<lambda>syms. Inr []),
       gm_history = (\<lambda>s. Inr [Some 10]), gm_history_n = (\<lambda>s. Inr []),
       now_hms = ''09:30:00''\<rparr>
     [''600000''] False 100 =
     (\<lparr>connected = False, token = None, account_id = None,
       data_cache = [(''600000'', \<lparr>price = 10, change_pct = 2, turnover_rate = 1, time_str = ''09:30:00'',
       source_type = Some ''AKShare'', data_source = Some ''AKShare''\<rparr>)], cache_time = [(''600000'', 100)],
       cache_expiry = 5\<rparr>,
      [(''600000'', \<lparr>price = 10, change_pct = 2, turnover_rate = 1, time_str = ''09:30:00'',
       source_type = Some ''AKShare'', data_source = Some ''AKShare''\<rparr>)],
      [AKShareCall [''600000'']]) \<and>
   get_realtime_data
     \<lparr>connected = False, token = None, account_id = None,
       data_cache = [(''600000'', \<lparr>price = 10, change_pct = 2, turnover_rate = 1, time_str = ''09:30:00'',
       source_type = Some ''AKShare'', data_source = Some ''AKShare''\<rparr>)], cache_time = [(''600000'', 100)],
       cache_expiry = 5\<rparr>
     \<lparr>MYQUANT_AVAILABLE = True, AKSHARE_AVAILABLE = True,
       stock_zh_a_spot_em = Inr (Some [\<lparr>ak_code = ''600000'', ak_latest_price = Some 10, ak_change_pct = Some 2, ak_turnover_rate = Some 1\<rparr>]), stock_zh_a_spot_gs = Inl ApiError,
       gm_current = (\<lambda>syms. Inr []),
       gm_history = (\<lambda>s. Inr [Some 10]), gm_history_n = (\<lambda>s. Inr []),
       now_hms = ''09:30:00''\<rparr>
     [''600000''] False 103 =
     (\<lparr>connected = False, token = None, account_id = None,
       data_cache = [(''600000'', \<lparr>price = 10, change_pct = 2, turnover_rate = 1, time_str = ''09:30:00'',
       source_type = Some ''AKShare'', data_source = Some ''AKShare''\<rparr>)], cache_time = [(''600000'', 100)],
       cache_expiry = 5\<rparr>,
      [(''600000'', \<lparr>price = 10, change_pct = 2, turnover_rate = 1, time_str = ''09:30:00'',
       source_type = Some ''AKShare'', data_source = Some ''AKShare''\<rparr>)],
      [])"
proof -
  let ?E = "\<lparr>MYQUANT_AVAILABLE = True, AKSHARE_AVAILABLE = True,
       stock_zh_a_spot_em = Inr (Some [\<lparr>ak_code = ''600000'', ak_latest_price = Some 10, ak_change_pct = Some 2, ak_turnover_rate = Some 1\<rparr>]), stock_zh_a_spot_gs = Inl ApiError,
       gm_current = (\<lambda>syms. Inr []),
       gm_history = (\<lambda>s. Inr [Some 10]), gm_history_n = (\<lambda>s. Inr []),
       now_hms = ''09:30:00''\<rparr>"
  let ?Q = "\<lparr>price = 10, change_pct = 2, turnover_rate = 1, time_str = ''09:30:00'',
       source_type = Some ''AKShare'', data_source = Some ''AKShare''\<rparr>"
  let ?C = "\<lparr>connected = False, token = None, account_id = None,
       data_cache = [(''600000'', \<lparr>price = 10, change_pct = 2, turnover_rate = 1, time_str = ''09:30:00'',
       source_type = Some ''AKShare'', data_source = Some ''AKShare''\<rparr>)], cache_time = [(''600000'', 100)],
       cache_expiry = 5\<rparr>"
  have first: "get_realtime_data init_client ?E [''600000''] False 100 =
                 (?C, [(''600000'', ?Q)], [AKShareCall [''600000'']])"
    by (simp add: quotes_eval init_client_def clean_code_of_def isdigit_def)
  have k: "clean_code_of ''600000'' = ''600000''" by (simp add: clean_code_of_def)
  have ret: "map_of [(''600000'', ?Q)] (clean_code_of ''600000'') = Some ?Q"
    by (simp add: k)
  have stored: "map_of (cache_time ?C) (clean_code_of ''600000'') = Some 100"
    by (simp add: k)
  have ttl: "cache_expiry init_client = 5" "(103::real) - 100 < 5"
    by (simp_all add: init_client_def)
  from cache_freshness[OF first ret stored ttl, of ?E] first show ?thesis
    by (simp add: k)
qed

text \<open>
  C2. In one call with the needs-fetch batch \<open>need\<close>, the MyQuant fallback runs exactly
  when there is something to fetch, the primary yielded nothing (AKShare is not importable
  or its result for the batch is empty) and the gateway reports connected; when the primary
  returns a non-empty result, the only provider call is the one of the primary.
\<close>

theorem fallback_only_after_empty_primary:
  assumes "get_realtime_data c e symbols force t = (c', result, calls)"
      and "need = snd (check_cache c force t symbols)"
  shows "((\<exists>batch. MyQuantCall batch \<in> set calls) \<longleftrightarrow>
            symbols \<noteq> [] \<and> need \<noteq> [] \<and>
            (AKSHARE_AVAILABLE e \<longrightarrow> get_realtime_data_from_akshare e need = []) \<and>
            is_connected c e) \<and>
         (AKSHARE_AVAILABLE e \<and> need \<noteq> [] \<and> get_realtime_data_from_akshare e need \<noteq> []
            \<longrightarrow> calls = [AKShareCall need])"
proof -
  have "calls = snd (snd (get_realtime_data c e symbols force t))"
    using assms(1) by simp
  then show ?thesis
    unfolding get_realtime_data_calls assms(2) Let_def
    by (auto simp: check_cache_def)
qed

text \<open>An empty AKShare table and a connected gateway: the fallback serves the batch.\<close>

theorem fallback_only_after_empty_primary_witness:
  "get_realtime_data (init_client\<lparr>connected := True\<rparr>)
     \<lparr>MYQUANT_AVAILABLE = True, AKSHARE_AVAILABLE = True,
       stock_zh_a_spot_em = Inr (Some []), stock_zh_a_spot_gs = Inl ApiError,
       gm_current = (\<lambda>syms. Inr [\<lparr>tick_symbol = Some ''SHSE.600000'',
                                     tick_price = Some 15, tick_cum_volume = Some 0\<rparr>]),
       gm_history = (\<lambda>s. Inr [Some 10]), gm_history_n = (\<lambda>s. Inr []),
       now_hms = ''09:30:00''\<rparr>
     [''600000''] False 100 =
     (\<lparr>connected = True, token = None, account_id = None,
       data_cache = [(''600000'', \<lparr>price = 15, change_pct = 50, turnover_rate = 0, time_str = ''09:30:00'',
       source_type = None, data_source = Some ''MyQuant''\<rparr>)], cache_time = [(''600000'', 100)],
       cache_expiry = 5\<rparr>,
      [(''600000'', \<lparr>price = 15, change_pct = 50, turnover_rate = 0, time_str = ''09:30:00'',
       source_type = None, data_source = Some ''MyQuant''\<rparr>)],
      [AKShareCall [''600000''], MyQuantCall [''600000'']]) \<and>
   get_realtime_data_from_akshare
     \<lparr>MYQUANT_AVAILABLE = True, AKSHARE_AVAILABLE = True,
       stock_zh_a_spot_em = Inr (Some []), stock_zh_a_spot_gs = Inl ApiError,
       gm_current = (\<lambda>syms. Inr [\<lparr>tick_symbol = Some ''SHSE.600000'',
                                     tick_price = Some 15, tick_cum_volume = Some 0\<rparr>]),
       gm_history = (\<lambda>s. Inr [Some 10]), gm_history_n = (\<lambda>s. Inr []),
       now_hms = ''09:30:00''\<rparr> [''600000''] = [] \<and>
   is_connected (init_client\<lparr>connected := True\<rparr>)
     \<lparr>MYQUANT_AVAILABLE = True, AKSHARE_AVAILABLE = True,
       stock_zh_a_spot_em = Inr (Some []), stock_zh_a_spot_gs = Inl ApiError,
       gm_current = (\<lambda>syms. Inr [\<lparr>tick_symbol = Some ''SHSE.600000'',
                                     tick_price = Some 15, tick_cum_volume = Some 0\<rparr>]),
       gm_history = (\<lambda>s. Inr [Some 10]), gm_history_n = (\<lambda>s. Inr []),
       now_hms = ''09:30:00''\<rparr>"
proof -
  let ?E = "\<lparr>MYQUANT_AVAILABLE = True, AKSHARE_AVAILABLE = True,
       stock_zh_a_spot_em = Inr (Some []), stock_zh_a_spot_gs = Inl ApiError,
       gm_current = (\<lambda>syms. Inr [\<lparr>tick_symbol = Some ''SHSE.600000'',
                                     tick_price = Some 15, tick_cum_volume = Some 0\<rparr>]),
       gm_history = (\<lambda>s. Inr [Some 10]), gm_history_n = (\<lambda>s. Inr []),
       now_hms = ''09:30:00''\<rparr>"
  let ?C = "init_client\<lparr>connected := True\<rparr>"
  have run: "get_realtime_data ?C ?E [''600000''] False 100 =
     (\<lparr>connected = True, token = None, account_id = None,
       data_cache = [(''600000'', \<lparr>price = 15, change_pct = 50, turnover_rate = 0, time_str = ''09:30:00'',
       source_type = None, data_source = Some ''MyQuant''\<rparr>)], cache_time = [(''600000'', 100)],
       cache_expiry = 5\<rparr>,
      [(''600000'', \<lparr>price = 15, change_pct = 50, turnover_rate = 0, time_str = ''09:30:00'',
       source_type = None, data_source = Some ''MyQuant''\<rparr>)],
      [AKShareCall [''600000''], MyQuantCall [''600000'']])"
    by (simp add: quotes_eval myquant_eval)
  have need: "[''600000''] = snd (check_cache ?C False 100 [''600000''])"
    by (simp add: check_cache_def check_cache_step_def init_client_def clean_code_of_def)
  have "\<exists>batch. MyQuantCall batch
          \<in> set [AKShareCall [''600000''], MyQuantCall [''600000'']]"
    by simp
  with fallback_only_after_empty_primary[OF run need] run show ?thesis
    by simp
qed

text \<open>
  C4. A call with \<open>force_refresh\<close> on a non-empty batch runs the provider chain on the
  whole batch: its provider calls are those of the chain for all the requested symbols,
  each call carries the whole batch, and the primary is called whenever AKShare is
  importable; the result and the calls are the same as with an empty cache (nothing is read
  from the cache); every fetched quote is returned and written to the cache with the call
  time as its fetch-time, and the entries of all other codes stay as they were.
\<close>

theorem force_refresh_bypass:
  assumes "symbols \<noteq> []"
      and "get_realtime_data c e symbols True t = (c', result, calls)"
      and "fetch_chain c e symbols = (fetched, ok, chain_calls)"
  shows "calls = chain_calls \<and>
         snd (get_realtime_data (clear_cache c) e symbols True t) = (result, calls) \<and>
         (AKSHARE_AVAILABLE e \<longrightarrow> AKShareCall symbols \<in> set calls) \<and>
         (\<forall>call \<in> set calls. call = AKShareCall symbols \<or> call = MyQuantCall symbols) \<and>
         (\<forall>code. case map_of fetched code of
                    Some d \<Rightarrow> map_of result code = Some (tag_source ok d) \<and>
                              map_of (data_cache c') code = Some (tag_source ok d) \<and>
                              map_of (cache_time c') code = Some t
                  | None \<Rightarrow> map_of result code = None \<and>
                            map_of (data_cache c') code = map_of (data_cache c) code \<and>
                            map_of (cache_time c') code = map_of (cache_time c) code)"
proof -
  have cc: "check_cache c True t symbols = ([], symbols)" by (rule check_cache_True)
  from get_realtime_data_fetch[OF assms(1) cc assms(1) assms(3) assms(2)]
  have calls: "calls = chain_calls" and st: "store_fetched ok t fetched (c, []) = (c', result)"
    by simp_all
  have di: "distinct (map fst fetched)"
    using fetch_chain_distinct[of c e symbols] by (simp add: assms(3))
  have "snd (store_fetched ok t fetched (clear_cache c, [])) = result"
    using st store_fetched_result[of ok t fetched c "[]"]
      store_fetched_result[of ok t fetched "clear_cache c" "[]"] by simp
  then have clr: "snd (get_realtime_data (clear_cache c) e symbols True t) = (result, calls)"
    using assms(1,3) calls
    by (simp add: get_realtime_data_def check_cache_True fetch_chain_clear_cache
        case_prod_beta)
  have ak: "AKSHARE_AVAILABLE e \<longrightarrow> AKShareCall symbols \<in> set calls"
    using assms(3) calls by (auto simp: fetch_chain_eq split: if_splits)
  have each: "\<forall>call \<in> set calls. call = AKShareCall symbols \<or> call = MyQuantCall symbols"
    using assms(3) calls by (auto simp: fetch_chain_eq split: if_splits)
  have look: "case map_of fetched code of
                    Some d \<Rightarrow> map_of result code = Some (tag_source ok d) \<and>
                              map_of (data_cache c') code = Some (tag_source ok d) \<and>
                              map_of (cache_time c') code = Some t
                  | None \<Rightarrow> map_of result code = None \<and>
                            map_of (data_cache c') code = map_of (data_cache c) code \<and>
                            map_of (cache_time c') code = map_of (cache_time c) code" for code
    using store_fetched_lookup[OF di st, of code] by (simp split: option.splits)
  from calls clr ak each look show ?thesis by blast
qed

text \<open>A fresh entry from one second ago is fetched again and replaced.\<close>

theorem force_refresh_bypass_witness:
  "get_realtime_data
     \<lparr>connected = False, token = None, account_id = None,
       data_cache = [(''600000'', \<lparr>price = 9, change_pct = 1, turnover_rate = 1, time_str = ''09:30:00'',
       source_type = Some ''AKShare'', data_source = Some ''AKShare''\<rparr>)], cache_time = [(''600000'', 99)],
       cache_expiry = 5\<rparr>
     \<lparr>MYQUANT_AVAILABLE = True, AKSHARE_AVAILABLE = True,
       stock_zh_a_spot_em = Inr (Some [\<lparr>ak_code = ''600000'', ak_latest_price = Some 10, ak_change_pct = Some 2, ak_turnover_rate = Some 1\<rparr>]), stock_zh_a_spot_gs = Inl ApiError,
       gm_current = (\<lambda>syms. Inr []),
       gm_history = (\<lambda>s. Inr [Some 10]), gm_history_n = (\<lambda>s. Inr []),
       now_hms = ''09:30:00''\<rparr>
     [''600000''] True 100 =
     (\<lparr>connected = False, token = None, account_id = None,
       data_cache = [(''600000'', \<lparr>price = 10, change_pct = 2, turnover_rate = 1, time_str = ''09:30:00'',
       source_type = Some ''AKShare'', data_source = Some ''AKShare''\<rparr>)], cache_time = [(''600000'', 100)],
       cache_expiry = 5\<rparr>,
      [(''600000'', \<lparr>price = 10, change_pct = 2, turnover_rate = 1, time_str = ''09:30:00'',
       source_type = Some ''AKShare'', data_source = Some ''AKShare''\<rparr>)],
      [AKShareCall [''600000'']]) \<and>
   snd (get_realtime_data
     (clear_cache \<lparr>connected = False, token = None, account_id = None,
       data_cache = [(''600000'', \<lparr>price = 9, change_pct = 1, turnover_rate = 1, time_str = ''09:30:00'',
       source_type = Some ''AKShare'', data_source = Some ''AKShare''\<rparr>)], cache_time = [(''600000'', 99)],
       cache_expiry = 5\<rparr>)
     \<lparr>MYQUANT_AVAILABLE = True, AKSHARE_AVAILABLE = True,
       stock_zh_a_spot_em = Inr (Some [\<lparr>ak_code = ''600000'', ak_latest_price = Some 10, ak_change_pct = Some 2, ak_turnover_rate = Some 1\<rparr>]), stock_zh_a_spot_gs = Inl ApiError,
       gm_current = (\<lambda>syms. Inr []),
       gm_history = (\<lambda>s. Inr [Some 10]), gm_history_n = (\<lambda>s. Inr []),
       now_hms = ''09:30:00''\<rparr>
     [''600000''] True 100) =
     ([(''600000'', \<lparr>price = 10, change_pct = 2, turnover_rate = 1, time_str = ''09:30:00'',
       source_type = Some ''AKShare'', data_source = Some ''AKShare''\<rparr>)],
      [AKShareCall [''600000'']]) \<and>
   map_of (cache_time \<lparr>connected = False, token = None, account_id = None,
       data_cache = [(''600000'', \<lparr>price = 10, change_pct = 2, turnover_rate = 1, time_str = ''09:30:00'',
       source_type = Some ''AKShare'', data_source = Some ''AKShare''\<rparr>)], cache_time = [(''600000'', 100)],
       cache_expiry = 5\<rparr>) ''600000'' = Some 100"
proof -
  let ?E = "\<lparr>MYQUANT_AVAILABLE = True, AKSHARE_AVAILABLE = True,
       stock_zh_a_spot_em = Inr (Some [\<lparr>ak_code = ''600000'', ak_latest_price = Some 10, ak_change_pct = Some 2, ak_turnover_rate = Some 1\<rparr>]), stock_zh_a_spot_gs = Inl ApiError,
       gm_current = (\<lambda>syms. Inr []),
       gm_history = (\<lambda>s. Inr [Some 10]), gm_history_n = (\<lambda>s. Inr []),
       now_hms = ''09:30:00''\<rparr>"
  let ?C0 = "\<lparr>connected = False, token = None, account_id = None,
       data_cache = [(''600000'', \<lparr>price = 9, change_pct = 1, turnover_rate = 1, time_str = ''09:30:00'',
       source_type = Some ''AKShare'', data_source = Some ''AKShare''\<rparr>)], cache_time = [(''600000'', 99)],
       cache_expiry = 5\<rparr>"
  let ?C1 = "\<lparr>connected = False, token = None, account_id = None,
       data_cache = [(''600000'', \<lparr>price = 10, change_pct = 2, turnover_rate = 1, time_str = ''09:30:00'',
       source_type = Some ''AKShare'', data_source = Some ''AKShare''\<rparr>)], cache_time = [(''600000'', 100)],
       cache_expiry = 5\<rparr>"
  let ?Q = "\<lparr>price = 10, change_pct = 2, turnover_rate = 1, time_str = ''09:30:00'',
       source_type = Some ''AKShare'', data_source = Some ''AKShare''\<rparr>"
  let ?D = "\<lparr>price = 10, change_pct = 2, turnover_rate = 1, time_str = ''09:30:00'',
       source_type = Some ''AKShare'', data_source = None\<rparr>"
  have ne: "[''600000''] \<noteq> []" by simp
  have run: "get_realtime_data ?C0 ?E [''600000''] True 100 =
               (?C1, [(''600000'', ?Q)], [AKShareCall [''600000'']])"
    by (simp add: quotes_eval clean_code_of_def isdigit_def)
  have fc: "fetch_chain ?C0 ?E [''600000''] =
              ([(''600000'', ?D)], True, [AKShareCall [''600000'']])"
    by (simp add: quotes_eval clean_code_of_def isdigit_def)
  from force_refresh_bypass[OF ne run fc] run show ?thesis
    by simp
qed

section \<open>Properties of the connection\<close>

text \<open>
  C3 as the code has it. \<open>test_api_call\<close> returns a pair (success, payload): (True, result)
  when the operation returns within the timeout, (False, exception) when it raises within
  the timeout, and (False, None) when it does not finish within the timeout. The first
  component says that the operation succeeded, not that it completed.
\<close>

theorem test_api_call_contract:
  "(d < timeout \<longrightarrow> test_api_call (Returns d v) timeout = (True, Result v)) \<and>
   (d < timeout \<longrightarrow> test_api_call (Raises d err) timeout = (False, Exn err)) \<and>
   (timeout < d \<longrightarrow> test_api_call (Returns d v) timeout = (False, PyNone) \<and>
                    test_api_call (Raises d err) timeout = (False, PyNone)) \<and>
   test_api_call Hangs timeout = (False, PyNone)"
  by (simp add: test_api_call_def)

theorem test_api_call_contract_witness:
  "(1 / 2 :: real) < 2 \<and>
   test_api_call (Returns (1 / 2) (7::nat)) 2 = (True, Result 7) \<and>
   test_api_call (Raises (1 / 2) ApiError :: nat api_call) 2 = (False, Exn ApiError) \<and>
   (2 :: real) < 3 \<and>
   test_api_call (Returns 3 (7::nat)) 2 = (False, PyNone) \<and>
   test_api_call (Raises 3 ApiError :: nat api_call) 2 = (False, PyNone)"
proof -
  have a: "(1 / 2 :: real) < 2" and b: "(2 :: real) < 3" by simp_all
  from test_api_call_contract[of "1 / 2" 2 "7::nat" ApiError]
    test_api_call_contract[of 3 2 "7::nat" ApiError] a b
  show ?thesis by blast
qed

text \<open>
  An operation that raises after half a second, with a timeout of two seconds: the first
  component is False in the code, true in the contract of the specification.
\<close>

theorem test_api_call_counterexample:
  "test_api_call (Raises (1 / 2) ApiError :: nat api_call) 2 = (False, Exn ApiError) \<and>
   spec_run (Raises (1 / 2) ApiError :: nat api_call) 2 = (True, None, Some ApiError)"
  by (simp add: test_api_call_def spec_run_def)

lemma connect_worker_connected:
  "connect_worker (c\<lparr>connected := b\<rparr>) p = connect_worker c p"
  by (simp add: connect_worker_def)

lemma connect_worker_success:
  assumes "fst (connect_worker c p)"
  shows "quote_probe_ok p \<or> cash_probe_ok p"
  using assms
  by (auto simp: connect_worker_def Let_def split: prod.splits if_splits)

lemma call_elapsed_le: "call_elapsed api_func timeout \<le> timeout"
  by (cases api_func) (simp_all add: call_elapsed_def)

lemma connect_worker_token_fails:
  assumes "\<not> fst (test_api_call (set_token_call p) 1)"
  shows "connect_worker c p = (False, call_elapsed (set_token_call p) 1)"
  using assms by (simp add: connect_worker_def Let_def case_prod_beta)

lemmas connect_eval =
  connect_def connect_worker_def quote_probe_ok_def cash_probe_ok_def test_api_call_def
  call_elapsed_def truthy_def init_client_def Let_def

text \<open>
  C9 as the code has it. \<open>connect\<close> returns true exactly in the connected branch, and
  \<open>is_connected\<close> afterwards is what it returned; it returns true only after the canary
  quote or the cash balance probe succeeded. When neither probe succeeds it returns false,
  \<open>is_connected\<close> is false and the branch is not the connected one. The two failure
  branches are distinct and decided by the timer, not by the kind of failure: the attempt
  is reported as timed out exactly when it failed with the worker still running 4 seconds
  after the start, and as a probe failure exactly when it failed with the worker ending
  before that. In particular an attempt whose token step fails is reported as a probe
  failure, since the worker ends within the one second of that step.
\<close>

theorem connect_outcomes:
  assumes "connect c e cfg p = (c', ok, outcome)"
  shows "(ok \<longleftrightarrow> outcome = Connected) \<and>
         (is_connected c' e \<longleftrightarrow> ok) \<and>
         (ok \<longrightarrow> quote_probe_ok p \<or> cash_probe_ok p) \<and>
         (\<not> quote_probe_ok p \<and> \<not> cash_probe_ok p \<longrightarrow>
            \<not> ok \<and> \<not> is_connected c' e \<and> outcome \<noteq> Connected) \<and>
         (outcome = TimedOut \<longleftrightarrow>
            MYQUANT_AVAILABLE e \<and> \<not> ok \<and> 4 \<le> snd (connect_worker c' p)) \<and>
         (outcome = ProbeFailed \<longleftrightarrow>
            MYQUANT_AVAILABLE e \<and> \<not> ok \<and> snd (connect_worker c' p) < 4) \<and>
         (MYQUANT_AVAILABLE e \<and> \<not> fst (test_api_call (set_token_call p) 1) \<longrightarrow>
            outcome = ProbeFailed)"
proof (cases "MYQUANT_AVAILABLE e")
  case False
  with assms show ?thesis
    by (auto simp: connect_def is_connected_def)
next
  case True
  let ?c1 = "c\<lparr>token := (if truthy (config_token cfg) then config_token cfg
                               else Some default_token),
                    account_id := (if truthy (config_account_id cfg) then config_account_id cfg
                                   else Some default_account_id)\<rparr>"
  obtain success t_end where w: "connect_worker ?c1 p = (success, t_end)"
    by (cases "connect_worker ?c1 p") auto
  have s: "success \<Longrightarrow> quote_probe_ok p \<or> cash_probe_ok p"
    using connect_worker_success[of ?c1 p] w by simp
  from assms True w have c': "c' = ?c1\<lparr>connected := ok\<rparr>"
    and ok: "ok = (success \<and> t_end \<le> 5)"
    and out: "outcome = (if ok then Connected else if 4 \<le> min t_end 5 then TimedOut
                         else ProbeFailed)"
    by (auto simp: connect_def Let_def split: if_splits)
  have w': "snd (connect_worker c' p) = t_end"
    unfolding c' connect_worker_connected using w by simp
  have tok: "outcome = ProbeFailed" if "\<not> fst (test_api_call (set_token_call p) 1)"
  proof -
    from connect_worker_token_fails[OF that, of ?c1] w
    have "\<not> success" "t_end = call_elapsed (set_token_call p) 1" by simp_all
    moreover have "call_elapsed (set_token_call p) 1 \<le> 1" by (rule call_elapsed_le)
    ultimately show ?thesis using ok out by simp
  qed
  show ?thesis
    unfolding w' using True s ok out tok by (auto simp: c' is_connected_def)
qed

text \<open>
  Two attempts with no terminal behind the vendor API. When the token and account calls
  return at once and both probes hang, the worker runs 5 seconds and the attempt is
  reported as timed out. When every call hangs, the token step gives up after 1 second,
  the worker ends there, and the attempt is reported as a probe failure.
\<close>

theorem connect_outcomes_witness:
  "connect init_client
     \<lparr>MYQUANT_AVAILABLE = True, AKSHARE_AVAILABLE = True,
       stock_zh_a_spot_em = Inl ApiError, stock_zh_a_spot_gs = Inl ApiError,
       gm_current = (\<lambda>syms. Inl ApiError),
       gm_history = (\<lambda>s. Inl ApiError), gm_history_n = (\<lambda>s. Inl ApiError),
       now_hms = ''09:30:00''\<rparr>
     \<lparr>config_token = None, config_account_id = None\<rparr>
     \<lparr>set_token_call = Returns 0 (), set_account_id_call = Returns 0 (),
       current_call = Hangs, get_cash_call = Hangs\<rparr> =
     (\<lparr>connected = False, token = Some default_token,
       account_id = Some default_account_id,
       data_cache = [], cache_time = [], cache_expiry = 5\<rparr>, False, TimedOut) \<and>
   \<not> quote_probe_ok \<lparr>set_token_call = Returns 0 (), set_account_id_call = Returns 0 (),
       current_call = Hangs, get_cash_call = Hangs\<rparr> \<and>
   \<not> cash_probe_ok \<lparr>set_token_call = Returns 0 (), set_account_id_call = Returns 0 (),
       current_call = Hangs, get_cash_call = Hangs\<rparr> \<and>
   \<not> is_connected \<lparr>connected = False, token = Some default_token,
       account_id = Some default_account_id,
       data_cache = [], cache_time = [], cache_expiry = 5\<rparr>
     \<lparr>MYQUANT_AVAILABLE = True, AKSHARE_AVAILABLE = True,
       stock_zh_a_spot_em = Inl ApiError, stock_zh_a_spot_gs = Inl ApiError,
       gm_current = (\<lambda>syms. Inl ApiError),
       gm_history = (\<lambda>s. Inl ApiError), gm_history_n = (\<lambda>s. Inl ApiError),
       now_hms = ''09:30:00''\<rparr> \<and>
   4 \<le> snd (connect_worker \<lparr>connected = False, token = Some default_token,
       account_id = Some default_account_id,
       data_cache = [], cache_time = [], cache_expiry = 5\<rparr>
              \<lparr>set_token_call = Returns 0 (), set_account_id_call = Returns 0 (),
       current_call = Hangs, get_cash_call = Hangs\<rparr>) \<and>
   connect init_client
     \<lparr>MYQUANT_AVAILABLE = True, AKSHARE_AVAILABLE = True,
       stock_zh_a_spot_em = Inl ApiError, stock_zh_a_spot_gs = Inl ApiError,
       gm_current = (\<lambda>syms. Inl ApiError),
       gm_history = (\<lambda>s. Inl ApiError), gm_history_n = (\<lambda>s. Inl ApiError),
       now_hms = ''09:30:00''\<rparr>
     \<lparr>config_token = None, config_account_id = None\<rparr>
     \<lparr>set_token_call = Hangs, set_account_id_call = Hangs,
       current_call = Hangs, get_cash_call = Hangs\<rparr> =
     (\<lparr>connected = False, token = Some default_token,
       account_id = Some default_account_id,
       data_cache = [], cache_time = [], cache_expiry = 5\<rparr>, False, ProbeFailed) \<and>
   snd (connect_worker \<lparr>connected = False, token = Some default_token,
       account_id = Some default_account_id,
       data_cache = [], cache_time = [], cache_expiry = 5\<rparr>
          \<lparr>set_token_call = Hangs, set_account_id_call = Hangs,
       current_call = Hangs, get_cash_call = Hangs\<rparr>) < 4"
proof -
  let ?E = "\<lparr>MYQUANT_AVAILABLE = True, AKSHARE_AVAILABLE = True,
       stock_zh_a_spot_em = Inl ApiError, stock_zh_a_spot_gs = Inl ApiError,
       gm_current = (\<lambda>syms. Inl ApiError),
       gm_history = (\<lambda>s. Inl ApiError), gm_history_n = (\<lambda>s. Inl ApiError),
       now_hms = ''09:30:00''\<rparr>"
  let ?cfg = "\<lparr>config_token = None, config_account_id = None\<rparr>"
  let ?slow = "\<lparr>set_token_call = Returns 0 (), set_account_id_call = Returns 0 (),
       current_call = Hangs, get_cash_call = Hangs\<rparr>"
  let ?hang = "\<lparr>set_token_call = Hangs, set_account_id_call = Hangs,
       current_call = Hangs, get_cash_call = Hangs\<rparr>"
  let ?C = "\<lparr>connected = False, token = Some default_token,
       account_id = Some default_account_id,
       data_cache = [], cache_time = [], cache_expiry = 5\<rparr>"
  have slow: "connect init_client ?E ?cfg ?slow = (?C, False, TimedOut)"
    by (simp add: connect_eval)
  have hang: "connect init_client ?E ?cfg ?hang = (?C, False, ProbeFailed)"
    by (simp add: connect_eval)
  have probes: "\<not> quote_probe_ok ?slow" "\<not> cash_probe_ok ?slow"
    by (simp_all add: connect_eval)
  from connect_outcomes[OF slow] connect_outcomes[OF hang] probes slow hang
  show ?thesis by simp
qed

text \<open>
  No terminal behind the vendor API and every probe step failing does not make the reason
  "timed out". When every vendor call hangs, each step fails by its own timeout, the token
  step first, and the attempt is reported as a probe failure after one second; when every
  vendor call raises at once, it is reported as a probe failure at once.
\<close>

theorem connect_timed_out_counterexample:
  "connect init_client
     \<lparr>MYQUANT_AVAILABLE = True, AKSHARE_AVAILABLE = True,
       stock_zh_a_spot_em = Inl ApiError, stock_zh_a_spot_gs = Inl ApiError,
       gm_current = (\<lambda>syms. Inl ApiError),
       gm_history = (\<lambda>s. Inl ApiError), gm_history_n = (\<lambda>s. Inl ApiError),
       now_hms = ''09:30:00''\<rparr>
     \<lparr>config_token = None, config_account_id = None\<rparr>
     \<lparr>set_token_call = Hangs, set_account_id_call = Hangs,
       current_call = Hangs, get_cash_call = Hangs\<rparr> =
     (\<lparr>connected = False, token = Some default_token,
       account_id = Some default_account_id,
       data_cache = [], cache_time = [], cache_expiry = 5\<rparr>, False, ProbeFailed) \<and>
   fst (test_api_call (Hangs :: unit api_call) 1) = False \<and>
   fst (test_api_call (Hangs :: tick list option api_call) 3) = False \<and>
   fst (test_api_call (Hangs :: unit api_call) 2) = False \<and>
   connect init_client
     \<lparr>MYQUANT_AVAILABLE = True, AKSHARE_AVAILABLE = True,
       stock_zh_a_spot_em = Inl ApiError, stock_zh_a_spot_gs = Inl ApiError,
       gm_current = (\<lambda>syms. Inl ApiError),
       gm_history = (\<lambda>s. Inl ApiError), gm_history_n = (\<lambda>s. Inl ApiError),
       now_hms = ''09:30:00''\<rparr>
     \<lparr>config_token = None, config_account_id = None\<rparr>
     \<lparr>set_token_call = Raises 0 ApiError, set_account_id_call = Raises 0 ApiError,
       current_call = Raises 0 ApiError, get_cash_call = Raises 0 ApiError\<rparr> =
     (\<lparr>connected = False, token = Some default_token,
       account_id = Some default_account_id,
       data_cache = [], cache_time = [], cache_expiry = 5\<rparr>, False, ProbeFailed) \<and>
   fst (test_api_call (Raises 0 ApiError :: unit api_call) 1) = False \<and>
   fst (test_api_call (Raises 0 ApiError :: tick list option api_call) 3) = False \<and>
   fst (test_api_call (Raises 0 ApiError :: unit api_call) 2) = False"
  by (simp add: connect_eval)

end
